theory Spec2Isabelle
  imports Main "HOL-Library.Sublist"
begin

section \<open>Go strings\<close>

text \<open>
  A Go \<open>string\<close> is a sequence of bytes, here a \<open>char list\<close>. Cells read from the ledger
  are \<open>interface{}\<close> values that the handlers always pass through \<open>fmt.Sprintf("%v", _)\<close>;
  the ledger is read with the default (formatted) rendering, so a cell is the string that
  \<open>%v\<close> prints.
\<close>

type_synonym cell = string
type_synonym row = "cell list"

text \<open>
  \<open>strings.TrimSpace\<close> removes leading and trailing white space as \<open>unicode.IsSpace\<close>
  defines it. \<open>spaceRunes\<close> lists the UTF-8 encodings of those code points: U+0009 to
  U+000D, U+0020, U+0085, U+00A0, U+1680, U+2000 to U+200A, U+2028, U+2029, U+202F,
  U+205F and U+3000. A byte that starts no such encoding is not white space.
\<close>

definition spaceRunes :: "string list" where
  "spaceRunes =
     [[CHR 0x09], [CHR 0x0A], [CHR 0x0B], [CHR 0x0C], [CHR 0x0D], [CHR 0x20],
      [CHR 0xC2, CHR 0x85], [CHR 0xC2, CHR 0xA0],
      [CHR 0xE1, CHR 0x9A, CHR 0x80],
      [CHR 0xE2, CHR 0x80, CHR 0x80], [CHR 0xE2, CHR 0x80, CHR 0x81],
      [CHR 0xE2, CHR 0x80, CHR 0x82], [CHR 0xE2, CHR 0x80, CHR 0x83],
      [CHR 0xE2, CHR 0x80, CHR 0x84], [CHR 0xE2, CHR 0x80, CHR 0x85],
      [CHR 0xE2, CHR 0x80, CHR 0x86], [CHR 0xE2, CHR 0x80, CHR 0x87],
      [CHR 0xE2, CHR 0x80, CHR 0x88], [CHR 0xE2, CHR 0x80, CHR 0x89],
      [CHR 0xE2, CHR 0x80, CHR 0x8A],
      [CHR 0xE2, CHR 0x80, CHR 0xA8], [CHR 0xE2, CHR 0x80, CHR 0xA9],
      [CHR 0xE2, CHR 0x80, CHR 0xAF], [CHR 0xE2, CHR 0x81, CHR 0x9F],
      [CHR 0xE3, CHR 0x80, CHR 0x80]]"

function TrimLeftSpace :: "string \<Rightarrow> string" where
  "TrimLeftSpace s =
     (case find (\<lambda>w. prefix w s) spaceRunes of
        None \<Rightarrow> s
      | Some w \<Rightarrow> TrimLeftSpace (drop (length w) s))"
  by pat_completeness auto
termination
proof (relation "measure length")
  show "wf (measure length)" by simp
next
  fix s w
  assume "find (\<lambda>w. prefix w s) spaceRunes = Some w"
  then have "w \<in> set spaceRunes" and "prefix w s"
    by (auto simp: find_Some_iff)
  then have "w \<noteq> []" and "length w \<le> length s"
    by (auto simp: spaceRunes_def prefix_length_le)
  then show "(drop (length w) s, s) \<in> measure length"
    by (cases w) auto
qed

function TrimRightSpace :: "string \<Rightarrow> string" where
  "TrimRightSpace s =
     (case find (\<lambda>w. suffix w s) spaceRunes of
        None \<Rightarrow> s
      | Some w \<Rightarrow> TrimRightSpace (take (length s - length w) s))"
  by pat_completeness auto
termination
proof (relation "measure length")
  show "wf (measure length)" by simp
next
  fix s w
  assume "find (\<lambda>w. suffix w s) spaceRunes = Some w"
  then have "w \<in> set spaceRunes" and "suffix w s"
    by (auto simp: find_Some_iff)
  then have "w \<noteq> []" and "length w \<le> length s"
    by (auto simp: spaceRunes_def suffix_length_le)
  then show "(take (length s - length w) s, s) \<in> measure length"
    by (cases w) auto
qed

declare TrimLeftSpace.simps [simp del] TrimRightSpace.simps [simp del]

definition TrimSpace :: "string \<Rightarrow> string" where
  "TrimSpace s = TrimRightSpace (TrimLeftSpace s)"

text \<open>\<open>strings.ReplaceAll(s, old, "")\<close> for a one-byte \<open>old\<close>: every occurrence is dropped.\<close>

definition ReplaceAll_empty :: "char \<Rightarrow> string \<Rightarrow> string" where
  "ReplaceAll_empty old s = filter (\<lambda>c. c \<noteq> old) s"

definition HasPrefix :: "string \<Rightarrow> string \<Rightarrow> bool" where
  "HasPrefix s p = prefix p s"

text \<open>\<open>strings.TrimLeft(s, "0")\<close>: the leading bytes \<open>0\<close> are dropped.\<close>

definition TrimLeft_zeros :: "string \<Rightarrow> string" where
  "TrimLeft_zeros s = dropWhile (\<lambda>c. c = CHR ''0'') s"

definition isDigit :: "char \<Rightarrow> bool" where
  "isDigit c = (c \<in> set ''0123456789'')"

section \<open>normalizePhoneNumber (main.go, lines 213 to 238)\<close>

text \<open>Lines 217 to 220: the four \<open>ReplaceAll\<close> calls, in the order of the source.\<close>

definition stripSeparators :: "string \<Rightarrow> string" where
  "stripSeparators no =
     ReplaceAll_empty (CHR 0x29)
       (ReplaceAll_empty (CHR 0x28)
         (ReplaceAll_empty (CHR ''-'')
           (ReplaceAll_empty (CHR '' '') no)))"

definition normalizePhoneNumber :: "string \<Rightarrow> string" where
  "normalizePhoneNumber no0 =
     (let no = stripSeparators (TrimSpace no0)
      in if HasPrefix no ''+'' then ''62'' @ drop 1 no
         else if HasPrefix no ''0'' then ''62'' @ drop 1 no
         else if HasPrefix no ''62'' then no
         else [])"


text \<open>
  The canonical address of the specification: decimal digits beginning with the country
  prefix.
\<close>

definition canonicalAddress :: "string \<Rightarrow> bool" where
  "canonicalAddress s = (prefix ''62'' s \<and> list_all isDigit s)"

definition separators :: "char set" where
  "separators = {CHR '' '', CHR ''-'', CHR 0x28, CHR 0x29}"

section \<open>Formatting and parsing integers\<close>

definition digitChar :: "nat \<Rightarrow> char" where
  "digitChar n = ''0123456789'' ! (n mod 10)"

function showNat :: "nat \<Rightarrow> string" where
  "showNat n = (if n < 10 then [digitChar n] else showNat (n div 10) @ [digitChar n])"
  by pat_completeness auto
termination
  by (relation "measure id") auto

declare showNat.simps [simp del]

text \<open>\<open>fmt.Sprintf("%d", i)\<close> and \<open>strconv.Itoa(i)\<close>.\<close>

definition Sprintf_d :: "int \<Rightarrow> string" where
  "Sprintf_d i = (if i < 0 then CHR ''-'' # showNat (nat (- i)) else showNat (nat i))"

text \<open>\<open>fmt.Sprintf("%04d", i)\<close>: zero padding to width four, the sign counted in the width.\<close>

definition Sprintf_04d :: "int \<Rightarrow> string" where
  "Sprintf_04d i =
     (let ds = showNat (nat \<bar>i\<bar>);
          sign = (if i < 0 then ''-'' else [])
      in sign @ replicate (4 - length sign - length ds) (CHR ''0'') @ ds)"

definition digitVal :: "char \<Rightarrow> int" where
  "digitVal c = of_char c - 48"

text \<open>
  \<open>strconv.Atoi\<close> on a 64-bit platform: an optional sign and at least one decimal digit. The
  second component is \<open>True\<close> when the error is \<open>nil\<close>. On a syntax error the value is 0; on a
  range error it is the nearest bound, and callers that drop the error keep that value.
\<close>

definition Atoi :: "string \<Rightarrow> int \<times> bool" where
  "Atoi s =
     (let neg = HasPrefix s ''-'';
          ds = (if HasPrefix s ''-'' \<or> HasPrefix s ''+'' then drop 1 s else s)
      in if ds = [] \<or> \<not> list_all isDigit ds then (0, False)
         else let n = foldl (\<lambda>a c. 10 * a + digitVal c) 0 ds;
                  v = (if neg then - n else n)
              in if v < - (2 ^ 63) then (- (2 ^ 63), False)
                 else if 2 ^ 63 - 1 < v then (2 ^ 63 - 1, False)
                 else (v, True))"

section \<open>Collaborators and effects\<close>

text \<open>
  The ledger, document, storage and messaging services are external. What a call returns is
  an input of the model (a field of an environment record, one per call site); what a
  handler does to the outside is the list of its effects, in order. A call that returns an
  error has no effect of its own in the list. Of the log lines, those of failures and
  warnings are kept; debug and success lines are left out. Replies and log lines are given
  by their ASCII text: the source puts an emoji in front of some of them.
\<close>

datatype error =
    CollaboratorError string
  | FormatNomorWA
  | WaApiError nat
  | MarkerNotFound

text \<open>\<open>sheets.ValueRange\<close>: \<open>Values\<close> is a slice, \<open>None\<close> when it is \<open>nil\<close>.\<close>

record ValueRange =
  Values :: "row list option"

definition rowsOf :: "ValueRange \<Rightarrow> row list" where
  "rowsOf vr = (case Values vr of None \<Rightarrow> [] | Some rs \<Rightarrow> rs)"

text \<open>A message body: the format string (by name) and the arguments interpolated in it.\<close>

datatype pesan = Pesan string "string list"

text \<open>
  A cell address \<open>Sheet!<column><row>\<close> is the sheet name, the column index (A is 0) and the
  row number. \<open>SheetsUpdate\<close> is a successful \<open>Values.Update\<close> of one row of values starting at
  that cell.
\<close>

type_synonym address = "string \<times> nat \<times> int"

datatype effect =
    Reply nat string
  | LogLine string
  | Panic
  | SaveLocal string
  | RemoveLocal string
  | DriveUpload string
  | DriveCopy string string
  | DocsReplaceAll string "(string \<times> string) list"
  | DocsFinish string "string list"
  | SheetsUpdate address "cell list"
  | WaPost string pesan

definition isSheetsUpdate :: "effect \<Rightarrow> bool" where
  "isSheetsUpdate e = (case e of SheetsUpdate a vs \<Rightarrow> True | _ \<Rightarrow> False)"

definition isWaPost :: "effect \<Rightarrow> bool" where
  "isWaPost e = (case e of WaPost n p \<Rightarrow> True | _ \<Rightarrow> False)"

definition isDocument :: "effect \<Rightarrow> bool" where
  "isDocument e =
     (case e of DriveCopy t n \<Rightarrow> True | DocsReplaceAll d r \<Rightarrow> True | DocsFinish d i \<Rightarrow> True
      | _ \<Rightarrow> False)"

text \<open>The ledger as a store of cells, and what the effects of a handler do to it.\<close>

type_synonym ledger = "address \<Rightarrow> cell"

fun writeRow :: "ledger \<Rightarrow> address \<Rightarrow> cell list \<Rightarrow> ledger" where
  "writeRow l a [] = l"
| "writeRow l (sheet, col, r) (v # vs) = writeRow (l((sheet, col, r) := v)) (sheet, Suc col, r) vs"

fun applyEffect :: "ledger \<Rightarrow> effect \<Rightarrow> ledger" where
  "applyEffect l (SheetsUpdate a vs) = writeRow l a vs"
| "applyEffect l e = l"

definition applyEffects :: "ledger \<Rightarrow> effect list \<Rightarrow> ledger" where
  "applyEffects l es = foldl applyEffect l es"

section \<open>kirimPesanWaBangkit (lines 240 to 266)\<close>

datatype http_result = TransportError string | StatusCode nat

text \<open>
  \<open>post\<close> is the HTTP client: the answer of the messaging endpoint to a request for a number
  and a message. The result is the requests issued and the error returned.
\<close>

definition kirimPesanWaBangkit ::
    "(string \<Rightarrow> pesan \<Rightarrow> http_result) \<Rightarrow> string \<Rightarrow> pesan \<Rightarrow> effect list \<times> error option" where
  "kirimPesanWaBangkit post no0 pesan =
     (let no = normalizePhoneNumber no0
      in if \<not> HasPrefix no ''62'' then ([], Some FormatNomorWA)
         else (case post no pesan of
                 TransportError e \<Rightarrow> ([WaPost no pesan], Some (CollaboratorError e))
               | StatusCode c \<Rightarrow>
                   ([WaPost no pesan], if 300 \<le> c then Some (WaApiError c) else None)))"

text \<open>\<open>getSalam\<close> (lines 268 to 280), on the hour of the clock.\<close>

definition getSalam :: "nat \<Rightarrow> string" where
  "getSalam hour =
     (if hour < 11 then ''Selamat pagi''
      else if hour < 15 then ''Selamat siang''
      else if hour < 18 then ''Selamat sore''
      else ''Selamat malam'')"


section \<open>Records of the ledger\<close>

record FormData =
  Nama :: string
  Kelas :: string
  NIS :: string
  NoWA :: string
  NamaAlat :: string
  JumlahAlat :: int
  TanggalPinjam :: string
  TanggalKembali :: string
  Keterangan :: string
  KeteranganPinjam :: string
  FotoPath :: string
  PeminjamanFotoPath :: string
  ApprovalStatus :: string
  KondisiAlat :: string
  KeteranganPengembalian :: string
  ApprovalDate :: string
  ApproverName :: string

text \<open>The zero value of the struct (\<open>var form FormData\<close>).\<close>

definition zeroForm :: FormData where
  "zeroForm =
     \<lparr>Nama = [], Kelas = [], NIS = [], NoWA = [], NamaAlat = [], JumlahAlat = 0,
      TanggalPinjam = [], TanggalKembali = [], Keterangan = [], KeteranganPinjam = [],
      FotoPath = [], PeminjamanFotoPath = [], ApprovalStatus = [], KondisiAlat = [],
      KeteranganPengembalian = [], ApprovalDate = [], ApproverName = []\<rparr>"

text \<open>
  The clock and the calendar: \<open>now layout\<close> is \<open>time.Now().Format(layout)\<close>, \<open>hour\<close> is
  \<open>time.Now().Hour()\<close>, and \<open>days a b\<close> is the whole number of days from date \<open>a\<close> to date
  \<open>b\<close> as lines 132, 670 and 1345 compute it with \<open>time.Parse\<close> and a floating-point
  division; the date arithmetic is a parameter.
\<close>

record clock =
  now :: "string \<Rightarrow> string"
  hour :: nat
  days :: "string \<Rightarrow> string \<Rightarrow> int"

text \<open>A guarded read \<open>if len(row) > i { x = fmt.Sprintf("%v", row[i]) }\<close> of a variable that is
  the empty string before.\<close>

definition cellAt :: "row \<Rightarrow> nat \<Rightarrow> cell" where
  "cellAt r i = (if i < length r then r ! i else [])"

text \<open>The tolerant comparison of lines 825 to 828, 890 to 893, 959 to 962, 1101 to 1104 and
  1134 to 1136.\<close>

definition sameID :: "cell \<Rightarrow> string \<Rightarrow> bool" where
  "sameID sheetID idPinjam = (TrimLeft_zeros sheetID = TrimLeft_zeros idPinjam)"

text \<open>
  The loops of lines 823 to 859, 888 to 901, 957 to 970 and 1099 to 1156 stop at the first
  row that is not empty and whose first cell is the identifier after \<open>TrimLeft\<close>.
\<close>

fun lookupLoan :: "row list \<Rightarrow> string \<Rightarrow> row option" where
  "lookupLoan [] idPinjam = None"
| "lookupLoan (r # rest) idPinjam =
     (if 0 < length r \<and> sameID (r ! 0) idPinjam then Some r else lookupLoan rest idPinjam)"

text \<open>The loops of lines 588 to 593 and 1001 to 1008 compare the cell as it is.\<close>

fun findRowIndex :: "row list \<Rightarrow> string \<Rightarrow> int \<Rightarrow> int" where
  "findRowIndex [] idPinjam i = - 1"
| "findRowIndex (r # rest) idPinjam i =
     (if 0 < length r \<and> r ! 0 = idPinjam then i + 5 else findRowIndex rest idPinjam (i + 1))"

fun lookupExact :: "row list \<Rightarrow> string \<Rightarrow> row option" where
  "lookupExact [] idPinjam = None"
| "lookupExact (r # rest) idPinjam =
     (if 0 < length r \<and> r ! 0 = idPinjam then Some r else lookupExact rest idPinjam)"

section \<open>The document renderers\<close>

text \<open>
  Each of \<open>generateSurat\<close>, \<open>generateSuratApproval\<close> and \<open>generateSuratPengembalian\<close> copies a
  template, moves the copy (the result is ignored or logged), replaces the placeholders in
  one \<open>BatchUpdate\<close>, then inserts images, grants read access, exports a PDF and uploads it.
  The steps after the replacement talk to the document and storage services only; their
  joint outcome is \<open>finish\<close>: an error, a panic (\<open>pdf.Id\<close> of a \<open>nil\<close> upload at lines 206 and
  1512) or the id of the uploaded PDF; \<open>DocsFinish\<close> lists the images the renderer asks for,
  whether or not their placeholder is found. The replacements are a Go map, sent in no
  fixed order; here they are an association list with distinct keys.
\<close>

datatype finish_result = FinishError error | FinishPanic | FinishOk string

record render_env =
  copyTemplate :: "error + string"
  batchUpdate :: "error option"
  finish :: finish_result

datatype 'a outcome = Panicked | Returned 'a

definition docURLof :: "string \<Rightarrow> string" where
  "docURLof docID = ''https://docs.google.com/document/d/'' @ docID @ ''/edit''"

definition pdfURLof :: "string \<Rightarrow> string" where
  "pdfURLof pdfID = ''https://drive.google.com/uc?id='' @ pdfID"

definition lamaPinjam :: "clock \<Rightarrow> FormData \<Rightarrow> string" where
  "lamaPinjam ck form = Sprintf_d (days ck (TanggalPinjam form) (TanggalKembali form)) @ '' hari''"

text \<open>Lines 121 to 134.\<close>

definition replacementsSurat :: "clock \<Rightarrow> FormData \<Rightarrow> int \<Rightarrow> (string \<times> string) list" where
  "replacementsSurat ck form nomorUrut =
     [(''<<NMR>>'', Sprintf_04d nomorUrut),
      (''<<TGL>>'', now ck ''02 January 2006''),
      (''<<NAMA>>'', Nama form),
      (''<<KLS>>'', Kelas form),
      (''<<NIS>>'', NIS form),
      (''<<NO>>'', NoWA form),
      (''<<NMALT>>'', NamaAlat form),
      (''<<JML>>'', Sprintf_d (JumlahAlat form)),
      (''<<TGLPMJ>>'', TanggalPinjam form),
      (''<<TGLPGN>>'', TanggalKembali form),
      (''<<LMPJM>>'', lamaPinjam ck form),
      (''<<KET>>'', Keterangan form)]"

text \<open>Lines 659 to 675.\<close>

definition replacementsApproval ::
    "clock \<Rightarrow> FormData \<Rightarrow> int \<Rightarrow> string \<Rightarrow> string \<Rightarrow> (string \<times> string) list" where
  "replacementsApproval ck form nomorUrut approver statusPersetujuan =
     replacementsSurat ck form nomorUrut @
     [(''<<TGLPS>>'', now ck ''02 January 2006 15:04''),
      (''<<STS>>'', statusPersetujuan),
      (''<<YNG>>'', approver)]"

text \<open>Lines 1333 to 1352.\<close>

definition replacementsPengembalian :: "clock \<Rightarrow> FormData \<Rightarrow> int \<Rightarrow> (string \<times> string) list" where
  "replacementsPengembalian ck form nomorUrut =
     [(''<<NMR>>'', Sprintf_04d nomorUrut),
      (''<<TGL>>'', now ck ''02 January 2006''),
      (''<<TGLBALI>>'', now ck ''02 January 2006''),
      (''<<NAMA>>'', Nama form),
      (''<<KLS>>'', Kelas form),
      (''<<NIS>>'', NIS form),
      (''<<NO>>'', NoWA form),
      (''<<NMALT>>'', NamaAlat form),
      (''<<JML>>'', Sprintf_d (JumlahAlat form)),
      (''<<TGLPMJ>>'', TanggalPinjam form),
      (''<<TGLPGN>>'', TanggalKembali form),
      (''<<LMPJM>>'', lamaPinjam ck form),
      (''<<KET>>'', KeteranganPinjam form),
      (''<<KNDS>>'', KondisiAlat form),
      (''<<KETALT>>'', KeteranganPengembalian form),
      (''<<TGLPS>>'', ApprovalDate form),
      (''<<STS>>'', ApprovalStatus form),
      (''<<YNG>>'', ApproverName form)]"

text \<open>
  The common shape of the three renderers. \<open>onBatchError\<close> is what is returned when the
  replacement fails: \<open>generateSurat\<close> returns its named results as they are (line 151), the
  other two return empty strings. The result is \<open>(pdfURL, docURL, err)\<close>.
\<close>

definition render ::
    "render_env \<Rightarrow> string \<Rightarrow> string \<Rightarrow> (string \<times> string) list \<Rightarrow> string list \<Rightarrow> bool \<Rightarrow>
       effect list \<times> (string \<times> string \<times> error option) outcome" where
  "render re templateID title replacements images keepDocURL =
     (case copyTemplate re of
        Inl e \<Rightarrow> ([], Returned ([], [], Some e))
      | Inr docID \<Rightarrow>
          (case batchUpdate re of
             Some e \<Rightarrow>
               ([DriveCopy templateID title],
                Returned ([], if keepDocURL then docURLof docID else [], Some e))
           | None \<Rightarrow>
               (case finish re of
                  FinishError e \<Rightarrow>
                    ([DriveCopy templateID title, DocsReplaceAll docID replacements],
                     Returned ([], [], Some e))
                | FinishPanic \<Rightarrow>
                    ([DriveCopy templateID title, DocsReplaceAll docID replacements, Panic],
                     Panicked)
                | FinishOk pdfID \<Rightarrow>
                    ([DriveCopy templateID title, DocsReplaceAll docID replacements,
                      DocsFinish docID images],
                     Returned (pdfURLof pdfID, docURLof docID, None)))))"

definition generateSurat ::
    "clock \<Rightarrow> render_env \<Rightarrow> FormData \<Rightarrow> int \<Rightarrow>
       effect list \<times> (string \<times> string \<times> error option) outcome" where
  "generateSurat ck re form nomorUrut =
     render re ''1RK2I4oAUvPFTlv98Hp5bDlassulBFvrASuhs5-riVUM''
       (''Formulir Peminjaman '' @ Sprintf_04d nomorUrut @ '' - '' @ Nama form)
       (replacementsSurat ck form nomorUrut)
       (if FotoPath form \<noteq> [] then [FotoPath form] else [])
       True"

definition generateSuratApproval ::
    "clock \<Rightarrow> render_env \<Rightarrow> FormData \<Rightarrow> int \<Rightarrow> string \<Rightarrow> string \<Rightarrow>
       effect list \<times> (string \<times> string \<times> error option) outcome" where
  "generateSuratApproval ck re form nomorUrut approver statusPersetujuan =
     render re ''1NVr2LHlDrrqEJJTrCJed3AnQTncs5ZMU6Lu0wO1RlRs''
       (''Formulir Approval '' @ Sprintf_04d nomorUrut @ '' - '' @ Nama form)
       (replacementsApproval ck form nomorUrut approver statusPersetujuan)
       (if PeminjamanFotoPath form \<noteq> [] then [PeminjamanFotoPath form] else [])
       False"

text \<open>The second image is inserted only inside the branch of the first (lines 1369 to 1491).\<close>

definition generateSuratPengembalian ::
    "clock \<Rightarrow> render_env \<Rightarrow> FormData \<Rightarrow> int \<Rightarrow>
       effect list \<times> (string \<times> string \<times> error option) outcome" where
  "generateSuratPengembalian ck re form nomorUrut =
     render re ''1aBpU0yBFFjVdMjYtuB5skHY4m5pCKlVlMCdzq5Ib9Y0''
       (''Formulir Pengembalian '' @ Sprintf_04d nomorUrut @ '' - '' @ Nama form)
       (replacementsPengembalian ck form nomorUrut)
       (if PeminjamanFotoPath form \<noteq> []
        then PeminjamanFotoPath form # (if FotoPath form \<noteq> [] then [FotoPath form] else [])
        else [])
       False"

text \<open>A notification: the requests of \<open>kirimPesanWaBangkit\<close>, and a log line when it fails.\<close>

definition notify ::
    "(string \<Rightarrow> pesan \<Rightarrow> http_result) \<Rightarrow> string \<Rightarrow> pesan \<Rightarrow> string \<Rightarrow> effect list" where
  "notify post no pesan failure =
     (case kirimPesanWaBangkit post no pesan of
        (es, None) \<Rightarrow> es
      | (es, Some e) \<Rightarrow> es @ [LogLine failure])"

text \<open>\<open>os.Getenv("APPROVER_NO")\<close> with its default (lines 515 to 518, 1028 to 1031, 1268 to
  1271).\<close>

definition approverNoOf :: "string \<Rightarrow> string" where
  "approverNoOf APPROVER_NO = (if APPROVER_NO = [] then ''6287760573989'' else APPROVER_NO)"


section \<open>handleApprove (lines 555 to 633)\<close>

text \<open>
  Column Q is index 16, R is 17 and S is 18, as the comments of lines 599, 610 and 621 say.
  \<open>ap_get\<close> is the read of \<open>Form Peminjam!A5:A\<close>.
\<close>

record approve_env =
  ap_clock :: clock
  ap_services :: "error option"
  ap_get :: "error + ValueRange option"
  ap_updateStatus :: "error option"
  ap_updateDate :: "error option"
  ap_updateApprover :: "error option"

definition emptyData :: "effect list" where
  "emptyData = [Reply 500 ''Data peminjaman kosong'', LogLine ''Empty peminjaman data'']"

text \<open>Lines 599 to 632: the three writes, each returning at its own failure.\<close>

definition approveWrites :: "approve_env \<Rightarrow> int \<Rightarrow> string \<Rightarrow> string \<Rightarrow> effect list" where
  "approveWrites env rowIndex approver statusPersetujuan =
     (case ap_updateStatus env of
        Some e \<Rightarrow>
          [Reply 500 ''Gagal update status approval'', LogLine ''Sheets update error (status):'']
      | None \<Rightarrow>
          SheetsUpdate (''Form Peminjam'', 16, rowIndex) [statusPersetujuan] #
          (case ap_updateDate env of
             Some e \<Rightarrow>
               [Reply 500 ''Gagal update tanggal persetujuan'',
                LogLine ''Sheets update error (date):'']
           | None \<Rightarrow>
               SheetsUpdate (''Form Peminjam'', 17, rowIndex)
                 [now (ap_clock env) ''2006-01-02 15:04:05''] #
               (case ap_updateApprover env of
                  Some e \<Rightarrow>
                    [Reply 500 ''Gagal update nama approver'',
                     LogLine ''Sheets update error (approver):'']
                | None \<Rightarrow>
                    [SheetsUpdate (''Form Peminjam'', 18, rowIndex) [approver],
                     Reply 200 ''Approval berhasil dikirim''])))"

definition handleApprove :: "approve_env \<Rightarrow> string \<Rightarrow> string \<Rightarrow> string \<Rightarrow> effect list" where
  "handleApprove env idPinjam approver statusPersetujuan =
     (if idPinjam = [] \<or> approver = [] \<or> statusPersetujuan = []
      then [Reply 400 ''ID Pinjam, Approver, dan Status Persetujuan harus diisi'']
      else (case ap_services env of
              Some e \<Rightarrow> [Reply 500 ''Gagal inisialisasi layanan'', LogLine ''Service error:'']
            | None \<Rightarrow>
                (case ap_get env of
                   Inl e \<Rightarrow>
                     [Reply 500 ''Gagal mengambil data dari Sheets'', LogLine ''Sheets get error:'']
                 | Inr None \<Rightarrow> emptyData
                 | Inr (Some resp) \<Rightarrow>
                     (case Values resp of
                        None \<Rightarrow> emptyData
                      | Some rows \<Rightarrow>
                          (let rowIndex = findRowIndex rows idPinjam 0
                           in if rowIndex = - 1 then [Reply 400 ''ID Pinjam tidak ditemukan'']
                              else approveWrites env rowIndex approver statusPersetujuan)))))"

section \<open>handleApprovalRequestNew (lines 787 to 1048)\<close>

text \<open>
  \<open>ar_get\<close> is the read of \<open>Form Peminjam!A5:Z\<close>, \<open>ar_getApproval\<close> the read of
  \<open>Approval Peminjaman!A6:F\<close>.
\<close>

record approval_env =
  ar_clock :: clock
  ar_services :: "error option"
  ar_get :: "error + ValueRange option"
  ar_render :: render_env
  ar_getApproval :: "error + ValueRange option"
  ar_update :: "error option"
  ar_post :: "string \<Rightarrow> pesan \<Rightarrow> http_result"
  ar_APPROVER_NO :: string

text \<open>Lines 821 to 901: the fields of the first matching row, each behind its length check.\<close>

definition approvalForm :: "row list \<Rightarrow> string \<Rightarrow> FormData" where
  "approvalForm rows idPinjam =
     (case lookupLoan rows idPinjam of
        None \<Rightarrow> zeroForm
      | Some r \<Rightarrow>
          zeroForm
            \<lparr>Nama := cellAt r 2, Kelas := cellAt r 3, NIS := cellAt r 4,
             NoWA := (if 5 < length r then TrimSpace (r ! 5) else []),
             NamaAlat := cellAt r 6,
             JumlahAlat := (if 7 < length r then fst (Atoi (r ! 7)) else 0),
             TanggalPinjam := cellAt r 8, TanggalKembali := cellAt r 9,
             Keterangan := cellAt r 11, PeminjamanFotoPath := cellAt r 12\<rparr>)"

text \<open>Lines 928 to 931: the row to write in the approval region, whose data start at row 6.\<close>

definition rowNumApproval :: "ValueRange option \<Rightarrow> int" where
  "rowNumApproval respApproval =
     (case respApproval of
        None \<Rightarrow> 6
      | Some vr \<Rightarrow> (case Values vr of None \<Rightarrow> 6 | Some rs \<Rightarrow> int (length rs) + 6))"

text \<open>Lines 951 to 1047: the two notifications and the acknowledgement.\<close>

definition approvalNotify ::
    "approval_env \<Rightarrow> row list \<Rightarrow> FormData \<Rightarrow> string \<Rightarrow> string \<Rightarrow> string \<Rightarrow> string \<Rightarrow> effect list" where
  "approvalNotify env rows form idPinjam approver statusPersetujuan docURL =
     (let noWAApproval =
            (case lookupLoan rows idPinjam of
               None \<Rightarrow> []
             | Some r \<Rightarrow> if 5 < length r then TrimSpace (r ! 5) else []);
          salam = getSalam (hour (ar_clock env));
          pesanPeminjam =
            Pesan ''pesanPeminjam''
              [salam, Nama form, NamaAlat form, Sprintf_d (JumlahAlat form), TanggalPinjam form,
               TanggalKembali form, statusPersetujuan, approver, docURL];
          normalizedNoWA = normalizePhoneNumber noWAApproval;
          toPeminjam =
            (if normalizedNoWA = [] \<or> \<not> HasPrefix normalizedNoWA ''62''
             then LogLine ''Nomor WA peminjam untuk approval tidak valid, tidak mengirim pesan WA'' #
               (let noWAFallback =
                      (case lookupExact rows idPinjam of
                         None \<Rightarrow> []
                       | Some r \<Rightarrow> if 5 < length r then TrimSpace (r ! 5) else []);
                    normalizedFallback = normalizePhoneNumber noWAFallback
                in if normalizedFallback \<noteq> [] \<and> HasPrefix normalizedFallback ''62''
                   then notify (ar_post env) normalizedFallback pesanPeminjam
                          ''Gagal kirim WA ke peminjam dengan fallback:''
                   else [])
             else notify (ar_post env) normalizedNoWA pesanPeminjam ''Gagal kirim WA ke peminjam:'');
          pesanApprover =
            Pesan ''pesanApprover''
              [salam, approver, idPinjam, Nama form, statusPersetujuan, docURL]
      in toPeminjam @
         notify (ar_post env) (approverNoOf (ar_APPROVER_NO env)) pesanApprover
           ''Gagal kirim WA ke approver:'' @
         [Reply 200 ''Permohonan persetujuan berhasil diproses''])"

text \<open>
  Lines 903 to 949. The handler binds the first result of \<open>generateSuratApproval\<close>, the PDF
  address, to its variable \<open>docURL\<close> (line 911).
\<close>

definition approvalProcess ::
    "approval_env \<Rightarrow> row list \<Rightarrow> string \<Rightarrow> string \<Rightarrow> string \<Rightarrow> effect list" where
  "approvalProcess env rows idPinjam approver statusPersetujuan =
     (let form = approvalForm rows idPinjam;
          nomorUrut = (case Atoi idPinjam of (v, ok) \<Rightarrow> if ok then v else 1)
      in case generateSuratApproval (ar_clock env) (ar_render env) form nomorUrut approver
                statusPersetujuan of
           (es, Panicked) \<Rightarrow> es
         | (es, Returned (docURL, x, Some e)) \<Rightarrow>
             es @ [Reply 500 ''Gagal membuat dokumen approval'',
                   LogLine ''generateSuratApproval error:'']
         | (es, Returned (docURL, x, None)) \<Rightarrow>
             es @
             (case ar_getApproval env of
                Inl e \<Rightarrow>
                  [Reply 500 ''Gagal mengambil data dari sheet approval'',
                   LogLine ''Sheets get error:'']
              | Inr respApproval \<Rightarrow>
                  (let rowNum = rowNumApproval respApproval;
                       values =
                         [Sprintf_04d (rowNum - 5), now (ar_clock env) ''2006-01-02'', Nama form,
                          approver, idPinjam, statusPersetujuan]
                   in case ar_update env of
                        Some e \<Rightarrow>
                          [Reply 500 ''Gagal update data ke sheet approval'',
                           LogLine ''Sheets update error:'']
                      | None \<Rightarrow>
                          SheetsUpdate (''Approval Peminjaman'', 0, rowNum) values #
                          approvalNotify env rows form idPinjam approver statusPersetujuan
                            docURL)))"

definition handleApprovalRequestNew ::
    "approval_env \<Rightarrow> string \<Rightarrow> string \<Rightarrow> string \<Rightarrow> effect list" where
  "handleApprovalRequestNew env idPinjam approver statusPersetujuan =
     (if idPinjam = [] \<or> approver = [] \<or> statusPersetujuan = []
      then [Reply 400 ''ID Pinjam, Approver, dan Status Persetujuan harus diisi'']
      else (case ar_services env of
              Some e \<Rightarrow> [Reply 500 ''Gagal inisialisasi layanan'', LogLine ''Service error:'']
            | None \<Rightarrow>
                (case ar_get env of
                   Inl e \<Rightarrow>
                     [Reply 500 ''Gagal mengambil data dari Sheets'', LogLine ''Sheets get error:'']
                 | Inr None \<Rightarrow> emptyData
                 | Inr (Some resp) \<Rightarrow>
                     (case Values resp of
                        None \<Rightarrow> emptyData
                      | Some rows \<Rightarrow>
                          approvalProcess env rows idPinjam approver statusPersetujuan))))"


section \<open>handlePinjam (lines 311 to 553)\<close>

text \<open>
  A request: its verb, its form values (\<open>r.FormValue\<close>, empty for an absent key) and the
  name of the uploaded file of part \<open>foto\<close>, when there is one.
\<close>

record request =
  Method :: string
  FormValue :: "string \<Rightarrow> string"
  FormFile :: "string option"

text \<open>
  \<open>pj_prefetchGet\<close> and \<open>pj_get\<close> are the two reads of \<open>Form Peminjam!B5:B\<close> (lines 345 and
  439), \<open>pj_getNoWA\<close> the read of \<open>Form Peminjam!F<row>\<close> (line 387). \<open>pj_save\<close> is the path of
  the staged upload, \<open>pj_upload\<close> the address of the stored photo.
\<close>

record pinjam_env =
  pj_clock :: clock
  pj_save :: "error + string"
  pj_prefetchServices :: "error option"
  pj_prefetchGet :: "error + ValueRange option"
  pj_services :: "error option"
  pj_upload :: "error + string"
  pj_getNoWA :: "int \<Rightarrow> error + ValueRange"
  pj_get :: "error + ValueRange option"
  pj_render :: render_env
  pj_update :: "error option"
  pj_post :: "string \<Rightarrow> pesan \<Rightarrow> http_result"
  pj_APPROVER_NO :: string
  pj_APPROVAL_LINK :: string

text \<open>Lines 446 to 454.\<close>

definition nextRowPinjam :: "ValueRange option \<Rightarrow> int" where
  "nextRowPinjam resp =
     (case resp of
        None \<Rightarrow> 1
      | Some vr \<Rightarrow>
          (case Values vr of
             None \<Rightarrow> 1
           | Some rs \<Rightarrow> if length rs = 0 then 1 else int (length rs) + 1))"

text \<open>
  Lines 378 to 437. The error tested at line 397 is the one of \<open>getServices\<close>, \<open>nil\<close> here, and
  \<open>name\<close> is \<open>form.Nama\<close> (line 378), so the update of the name at lines 414 to 436 is never
  reached: what remains is the choice of \<open>form.NoWA\<close>.
\<close>

definition pinjamNoWA :: "pinjam_env \<Rightarrow> FormData \<Rightarrow> ValueRange option \<Rightarrow> string" where
  "pinjamNoWA env form sheetData =
     (let noWA1 =
            (if NoWA form = []
             then (case sheetData of
                     None \<Rightarrow> []
                   | Some sd \<Rightarrow>
                       (let rowToUpdate = int (length (rowsOf sd)) + 4
                        in if 5 < rowToUpdate
                           then (case pj_getNoWA env rowToUpdate of
                                   Inl e \<Rightarrow> []
                                 | Inr respNoWA \<Rightarrow>
                                     (case rowsOf respNoWA of
                                        [] \<Rightarrow> []
                                      | r0 # rest \<Rightarrow>
                                          (case r0 of [] \<Rightarrow> [] | c # cs \<Rightarrow> TrimSpace c)))
                           else []))
             else NoWA form);
          noWA2 = TrimSpace noWA1
      in if noWA2 = [] then noWA1 else noWA2)"

text \<open>Lines 479 to 551.\<close>

definition pinjamNotify :: "pinjam_env \<Rightarrow> FormData \<Rightarrow> int \<Rightarrow> string \<Rightarrow> effect list" where
  "pinjamNotify env form row pdf =
     (let salam = getSalam (hour (pj_clock env));
          pesan =
            Pesan ''pesan''
              [salam, Nama form, NamaAlat form, Sprintf_d (JumlahAlat form), TanggalPinjam form,
               TanggalKembali form, pdf];
          toPeminjam =
            (if NoWA form = []
             then [LogLine ''Nomor WA peminjam kosong, tidak dapat mengirim pesan WA'']
             else (let normalizedNo = normalizePhoneNumber (NoWA form)
                   in if normalizedNo = [] \<or> \<not> HasPrefix normalizedNo ''62''
                      then [LogLine
                              ''Nomor WA peminjam tidak valid setelah normalisasi, tidak mengirim pesan WA'']
                      else notify (pj_post env) normalizedNo pesan ''Gagal kirim WA:''));
          approvalLink =
            (if pj_APPROVAL_LINK env = [] then ''https://example.com/approval''
             else pj_APPROVAL_LINK env);
          approverPesan =
            Pesan ''approverPesan''
              [salam, Nama form, Nama form, NamaAlat form, Sprintf_d (JumlahAlat form),
               TanggalPinjam form, TanggalKembali form, pdf, approvalLink, Sprintf_04d row]
      in toPeminjam @
         notify (pj_post env) (approverNoOf (pj_APPROVER_NO env)) approverPesan
           ''Gagal kirim WA ke approver'')"

text \<open>Lines 439 to 477: the read of the extent, the ordinal, the document and the row.\<close>

definition pinjamStore :: "pinjam_env \<Rightarrow> FormData \<Rightarrow> effect list" where
  "pinjamStore env form =
     (case pj_get env of
        Inl e \<Rightarrow> [LogLine ''Gagal mengambil data dari Sheets:'']
      | Inr resp \<Rightarrow>
          (let row = nextRowPinjam resp
           in case generateSurat (pj_clock env) (pj_render env) form row of
                (es, Panicked) \<Rightarrow> es
              | (es, Returned (pdf, doc, Some e)) \<Rightarrow> es @ [LogLine ''Gagal generate surat:'']
              | (es, Returned (pdf, doc, None)) \<Rightarrow>
                  es @
                  (let values =
                         [Sprintf_04d row, now (pj_clock env) ''2006-01-02'', Nama form, Kelas form,
                          NIS form, NoWA form, NamaAlat form, Sprintf_d (JumlahAlat form),
                          TanggalPinjam form, TanggalKembali form, Keterangan form,
                          lamaPinjam (pj_clock env) form, FotoPath form, pdf, doc, []]
                   in case pj_update env of
                        Some e \<Rightarrow> [LogLine ''Gagal update data ke Sheets:'']
                      | None \<Rightarrow>
                          SheetsUpdate (''Form Peminjam'', 0, row + 4) values #
                          pinjamNotify env form row pdf)))"

text \<open>Lines 357 to 552: the task started after the acknowledgement.\<close>

definition pinjamAsync ::
    "pinjam_env \<Rightarrow> FormData \<Rightarrow> string \<Rightarrow> ValueRange option \<Rightarrow> effect list" where
  "pinjamAsync env form0 localPath sheetData =
     (case pj_services env of
        Some e \<Rightarrow> [LogLine ''Service error:'']
      | None \<Rightarrow>
          (let uploaded =
                 (if localPath \<noteq> []
                  then (case pj_upload env of
                          Inr url \<Rightarrow>
                            ([DriveUpload localPath, RemoveLocal localPath],
                             form0\<lparr>FotoPath := url\<rparr>)
                        | Inl e \<Rightarrow>
                            ([LogLine ''Gagal upload foto pengembalian ke Drive:'',
                              RemoveLocal localPath],
                             form0))
                  else ([], form0));
               form1 = snd uploaded;
               form = form1\<lparr>NoWA := pinjamNoWA env form1 sheetData\<rparr>
           in fst uploaded @ pinjamStore env form))"

text \<open>Lines 326 to 332 and 1071 to 1077: the upload is staged when the request has one.\<close>

definition stage :: "request \<Rightarrow> (error + string) \<Rightarrow> effect list \<times> string" where
  "stage r saved =
     (case FormFile r of
        None \<Rightarrow> ([], [])
      | Some filename \<Rightarrow> (case saved of Inl e \<Rightarrow> ([], []) | Inr path \<Rightarrow> ([SaveLocal path], path)))"

text \<open>Lines 339 to 354: the first read, kept for the task.\<close>

definition prefetch :: "pinjam_env \<Rightarrow> effect list \<times> ValueRange option" where
  "prefetch env =
     (case pj_prefetchServices env of
        Some e \<Rightarrow> ([LogLine ''Service error:''], None)
      | None \<Rightarrow>
          (case pj_prefetchGet env of
             Inl e \<Rightarrow> ([LogLine ''Gagal mengambil data dari Sheets:''], None)
           | Inr resp \<Rightarrow> ([], resp)))"

definition handlePinjam :: "pinjam_env \<Rightarrow> request \<Rightarrow> effect list" where
  "handlePinjam env r =
     (let form =
            zeroForm
              \<lparr>Nama := FormValue r ''nama'', Kelas := FormValue r ''kelas'',
               NIS := FormValue r ''nis'', NoWA := FormValue r ''noWa'',
               NamaAlat := FormValue r ''namaAlat'',
               JumlahAlat := fst (Atoi (FormValue r ''jumlahAlat'')),
               TanggalPinjam := FormValue r ''tanggalPinjam'',
               TanggalKembali := FormValue r ''tanggalKembali'',
               Keterangan := FormValue r ''keterangan''\<rparr>;
          staged = stage r (pj_save env);
          fetched = prefetch env
      in fst staged @
         [Reply 200 ''Data berhasil diterima dan sedang diproses''] @
         fst fetched @
         (if snd fetched = None
          then [LogLine ''Tidak dapat mengambil data sheet, melanjutkan tanpa update nama'']
          else []) @
         pinjamAsync env form (snd staged) (snd fetched))"

section \<open>handlePengembalian (lines 1052 to 1313)\<close>

text \<open>
  \<open>kb_get\<close> is the read of \<open>Form Peminjam!A5:Z\<close> (its result is used without a \<open>nil\<close> check),
  \<open>kb_getApproval\<close> the read of \<open>Approval Peminjaman!A6:F\<close> and \<open>kb_getPengembalian\<close> the read
  of \<open>Form Pengembalian!B5:B\<close>.
\<close>

record kembali_env =
  kb_clock :: clock
  kb_save :: "error + string"
  kb_services :: "error option"
  kb_get :: "error + ValueRange"
  kb_getApproval :: "error + ValueRange option"
  kb_upload :: "error + string"
  kb_getPengembalian :: "error + ValueRange option"
  kb_render :: render_env
  kb_update :: "error option"
  kb_post :: "string \<Rightarrow> pesan \<Rightarrow> http_result"
  kb_APPROVER_NO :: string

text \<open>Lines 1105 to 1122, for a row of at least ten cells.\<close>

definition loanForm :: "row \<Rightarrow> string \<Rightarrow> string \<Rightarrow> FormData" where
  "loanForm r kondisiAlat keteranganPengembalian =
     zeroForm
       \<lparr>Nama := r ! 2, Kelas := r ! 3, NIS := r ! 4, NoWA := r ! 5, NamaAlat := r ! 6,
        JumlahAlat := fst (Atoi (r ! 7)), TanggalPinjam := r ! 8, TanggalKembali := r ! 9,
        KeteranganPinjam := cellAt r 10, PeminjamanFotoPath := cellAt r 12,
        KondisiAlat := kondisiAlat, KeteranganPengembalian := keteranganPengembalian\<rparr>"

text \<open>Lines 1137 to 1145: the fields copied from an approval row.\<close>

definition setApproval :: "row \<Rightarrow> FormData \<Rightarrow> FormData" where
  "setApproval approvalRow form =
     form
       \<lparr>ApprovalDate := (if 1 < length approvalRow then approvalRow ! 1 else ApprovalDate form),
        ApprovalStatus :=
          (if 5 < length approvalRow then approvalRow ! 5 else ApprovalStatus form),
        ApproverName := (if 3 < length approvalRow then approvalRow ! 3 else ApproverName form)\<rparr>"

text \<open>Lines 1132 to 1149: the loop over the approval rows, left at the first match.\<close>

fun joinApproval :: "row list \<Rightarrow> string \<Rightarrow> FormData \<Rightarrow> FormData" where
  "joinApproval [] idPeminjam form = form"
| "joinApproval (approvalRow # rest) idPeminjam form =
     (if 4 < length approvalRow \<and> sameID (approvalRow ! 4) idPeminjam
      then setApproval approvalRow form
      else joinApproval rest idPeminjam form)"

text \<open>Lines 1183 to 1189.\<close>

definition nextRowPengembalian :: "ValueRange option \<Rightarrow> int" where
  "nextRowPengembalian respPengembalian =
     (case respPengembalian of
        None \<Rightarrow> 1
      | Some vr \<Rightarrow>
          (case Values vr of
             None \<Rightarrow> 1
           | Some rs \<Rightarrow> if length rs = 0 then 1 else int (length rs) + 1))"

text \<open>Lines 1235 to 1310.\<close>

definition kembaliNotify ::
    "kembali_env \<Rightarrow> FormData \<Rightarrow> string \<Rightarrow> string \<Rightarrow> string \<Rightarrow> effect list" where
  "kembaliNotify env form kondisiAlat keteranganPengembalian pdf =
     (let salam = getSalam (hour (kb_clock env));
          pesan =
            Pesan ''pesan''
              [salam, Nama form, NamaAlat form, Sprintf_d (JumlahAlat form), TanggalPinjam form,
               TanggalKembali form, kondisiAlat, pdf];
          toPeminjam =
            (if NoWA form = []
             then [LogLine ''Nomor WA peminjam kosong, tidak dapat mengirim pesan WA'']
             else (let normalizedNo = normalizePhoneNumber (NoWA form)
                   in if normalizedNo = [] \<or> \<not> HasPrefix normalizedNo ''62''
                      then [LogLine
                              ''Nomor WA peminjam tidak valid setelah normalisasi, tidak mengirim pesan WA'']
                      else notify (kb_post env) normalizedNo pesan ''Gagal kirim WA:''));
          approverName =
            (if ApproverName form \<noteq> [] then ApproverName form else ''Bapak Sebastian'');
          pesanApprover =
            Pesan ''pesanApprover''
              [approverName, Nama form, NamaAlat form, Sprintf_d (JumlahAlat form),
               TanggalPinjam form, TanggalKembali form, now (kb_clock env) ''02 January 2006'',
               kondisiAlat, keteranganPengembalian, pdf];
          normalizedApproverNo = normalizePhoneNumber (approverNoOf (kb_APPROVER_NO env))
      in toPeminjam @
         (if normalizedApproverNo = [] \<or> \<not> HasPrefix normalizedApproverNo ''62''
          then [LogLine ''Nomor WA approver tidak valid, tidak mengirim pesan WA'']
          else notify (kb_post env) normalizedApproverNo pesanApprover
                 ''Gagal kirim WA ke approver:''))"

text \<open>Lines 1163 to 1233: the photo, the extent of the return region, the document, the row.\<close>

definition kembaliStore ::
    "kembali_env \<Rightarrow> FormData \<Rightarrow> string \<Rightarrow> string \<Rightarrow> string \<Rightarrow> string \<Rightarrow> effect list" where
  "kembaliStore env form0 idPeminjam kondisiAlat keteranganPengembalian localPath =
     (let uploaded =
            (if localPath \<noteq> []
             then (case kb_upload env of
                     Inr url \<Rightarrow>
                       ([DriveUpload localPath, RemoveLocal localPath], form0\<lparr>FotoPath := url\<rparr>)
                   | Inl e \<Rightarrow>
                       ([LogLine ''Gagal upload foto pengembalian ke Drive:'',
                         RemoveLocal localPath],
                        form0\<lparr>FotoPath := ''Gagal upload''\<rparr>))
             else ([], form0));
          form = snd uploaded
      in fst uploaded @
         (case kb_getPengembalian env of
            Inl e \<Rightarrow> [LogLine ''Gagal mengambil data dari Sheets pengembalian:'']
          | Inr respPengembalian \<Rightarrow>
              (let row = nextRowPengembalian respPengembalian;
                   nomorUrut = (case Atoi idPeminjam of (v, ok) \<Rightarrow> if ok then v else row)
               in case generateSuratPengembalian (kb_clock env) (kb_render env) form nomorUrut of
                    (es, Panicked) \<Rightarrow> es
                  | (es, Returned (pdf, doc, Some e)) \<Rightarrow>
                      es @ [LogLine ''Gagal generate surat pengembalian:'']
                  | (es, Returned (pdf, doc, None)) \<Rightarrow>
                      es @
                      (let idPeminjamFormatted =
                             (case Atoi idPeminjam of
                                (v, ok) \<Rightarrow> if ok then Sprintf_04d v else idPeminjam);
                           values =
                             [idPeminjamFormatted, Nama form, now (kb_clock env) ''2006-01-02'',
                              kondisiAlat, keteranganPengembalian, FotoPath form]
                       in case kb_update env of
                            Some e \<Rightarrow> [LogLine ''Gagal update data pengembalian ke Sheets:'']
                          | None \<Rightarrow>
                              SheetsUpdate (''Form Pengembalian'', 0, row + 4) values #
                              kembaliNotify env form kondisiAlat keteranganPengembalian pdf))))"

text \<open>
  Lines 1124 to 1150: the approval region is read once the loan row is found; a failed read
  is logged and the pipeline goes on without the approval fields.
\<close>

definition joinRead :: "kembali_env \<Rightarrow> string \<Rightarrow> FormData \<Rightarrow> effect list \<times> FormData" where
  "joinRead env idPeminjam form =
     (case kb_getApproval env of
        Inl e \<Rightarrow> ([LogLine ''Gagal mengambil data dari sheet Approval Peminjaman:''], form)
      | Inr None \<Rightarrow> ([], form)
      | Inr (Some respApproval) \<Rightarrow>
          (case Values respApproval of
             None \<Rightarrow> ([], form)
           | Some rs \<Rightarrow> ([], joinApproval rs idPeminjam form)))"

text \<open>
  Lines 1082 to 1312: the task started after the acknowledgement. Lines 1105 to 1112 index
  the matching row up to its tenth cell without a length check: a shorter row panics.
\<close>

definition kembaliAsync ::
    "kembali_env \<Rightarrow> string \<Rightarrow> string \<Rightarrow> string \<Rightarrow> string \<Rightarrow> effect list" where
  "kembaliAsync env idPeminjam kondisiAlat keteranganPengembalian localPath =
     (case kb_services env of
        Some e \<Rightarrow> [LogLine ''Service error:'']
      | None \<Rightarrow>
          (case kb_get env of
             Inl e \<Rightarrow> [LogLine ''Gagal mengambil data dari Sheets:'']
           | Inr resp \<Rightarrow>
               (case lookupLoan (rowsOf resp) idPeminjam of
                  None \<Rightarrow> [LogLine ''ID Peminjam tidak ditemukan di sheet peminjaman'']
                | Some r \<Rightarrow>
                    if length r < 10 then [Panic]
                    else (let joined =
                                joinRead env idPeminjam
                                  (loanForm r kondisiAlat keteranganPengembalian)
                          in fst joined @
                             kembaliStore env (snd joined) idPeminjam kondisiAlat
                               keteranganPengembalian localPath))))"

definition handlePengembalian :: "kembali_env \<Rightarrow> request \<Rightarrow> effect list" where
  "handlePengembalian env r =
     (if Method r = ''OPTIONS'' then [Reply 200 []]
      else if Method r \<noteq> ''POST'' then [Reply 405 ''Method not allowed'']
      else (let staged = stage r (kb_save env)
            in fst staged @
               [Reply 200 ''Data pengembalian berhasil diterima dan sedang diproses''] @
               kembaliAsync env (FormValue r ''idPeminjam'') (FormValue r ''kondisiAlat'')
                 (FormValue r ''keteranganPengembalian'') (snd staged)))"


section \<open>Sample data\<close>

text \<open>Concrete ledgers and environments, on which the theorems below are instantiated.\<close>

definition clock0 :: clock where
  "clock0 = \<lparr>now = (\<lambda>layout. ''2025-01-20''), hour = 9, days = (\<lambda>a b. 5)\<rparr>"

definition loanRows :: "row list" where
  "loanRows =
     [[''0006'', ''2025-01-09'', ''Ani'', ''X TKJ'', ''1111'', ''6281111111111'', ''Tripod'', ''1'',
       ''2025-01-09'', ''2025-01-10''],
      [''0007'', ''2025-01-10'', ''Budi'', ''XI RPL'', ''1234'', ''081234567890'', ''Kamera'', ''3'',
       ''2025-01-10'', ''2025-01-15'', ''Tugas'', ''5 hari'', ''https://drive.google.com/uc?id=f1'']]"

definition approvalRows :: "row list" where
  "approvalRows =
     [[''0001'', ''2025-01-11'', ''Budi'', ''Pak Andi'', ''0007'', ''Rejected''],
      [''0002'', ''2025-01-12'', ''Budi'', ''Bu Sari'', ''7'', ''Approved'']]"

definition renderOk :: render_env where
  "renderOk = \<lparr>copyTemplate = Inr ''doc1'', batchUpdate = None, finish = FinishOk ''pdf1''\<rparr>"

definition postOk :: "string \<Rightarrow> pesan \<Rightarrow> http_result" where
  "postOk no pesan = StatusCode 200"

definition approveEnv :: approve_env where
  "approveEnv =
     \<lparr>ap_clock = clock0, ap_services = None,
      ap_get = Inr (Some \<lparr>Values = Some [[''0006''], [''0007'']]\<rparr>),
      ap_updateStatus = None, ap_updateDate = None, ap_updateApprover = None\<rparr>"

definition approvalEnv :: approval_env where
  "approvalEnv =
     \<lparr>ar_clock = clock0, ar_services = None, ar_get = Inr (Some \<lparr>Values = Some loanRows\<rparr>),
      ar_render = renderOk, ar_getApproval = Inr (Some \<lparr>Values = Some approvalRows\<rparr>),
      ar_update = None, ar_post = postOk, ar_APPROVER_NO = []\<rparr>"

definition pinjamEnv :: pinjam_env where
  "pinjamEnv =
     \<lparr>pj_clock = clock0, pj_save = Inr ''uploads/1_foto.jpg'', pj_prefetchServices = None,
      pj_prefetchGet = Inr (Some \<lparr>Values = Some [[''2025-01-09''], [''2025-01-10'']]\<rparr>),
      pj_services = None, pj_upload = Inr ''https://drive.google.com/uc?id=f2'',
      pj_getNoWA = (\<lambda>r. Inr \<lparr>Values = None\<rparr>),
      pj_get = Inr (Some \<lparr>Values = Some [[''2025-01-09''], [''2025-01-10'']]\<rparr>),
      pj_render = renderOk, pj_update = None, pj_post = postOk, pj_APPROVER_NO = [],
      pj_APPROVAL_LINK = []\<rparr>"

definition kembaliEnv :: kembali_env where
  "kembaliEnv =
     \<lparr>kb_clock = clock0, kb_save = Inr ''uploads/2_foto.jpg'', kb_services = None,
      kb_get = Inr \<lparr>Values = Some loanRows\<rparr>,
      kb_getApproval = Inr (Some \<lparr>Values = Some approvalRows\<rparr>),
      kb_upload = Inr ''https://drive.google.com/uc?id=f3'',
      kb_getPengembalian = Inr (Some \<lparr>Values = Some [[''Ani'']]\<rparr>),
      kb_render = renderOk, kb_update = None, kb_post = postOk, kb_APPROVER_NO = []\<rparr>"

definition pinjamForm :: FormData where
  "pinjamForm =
     zeroForm\<lparr>Nama := ''Citra'', Kelas := ''XII MM'', NIS := ''4321'', NoWA := ''081234567890'',
       NamaAlat := ''Kamera'', JumlahAlat := 3, TanggalPinjam := ''2025-01-10'',
       TanggalKembali := ''2025-01-15''\<rparr>"

definition kembaliRequest :: "string \<Rightarrow> request" where
  "kembaliRequest idPeminjam =
     \<lparr>Method = ''POST'',
      FormValue = (\<lambda>k. if k = ''idPeminjam'' then idPeminjam
                       else if k = ''kondisiAlat'' then ''Baik'' else []),
      FormFile = None\<rparr>"

text \<open>The replacements sent to the document service by a list of effects.\<close>

definition documentFields :: "effect list \<Rightarrow> (string \<times> string) list" where
  "documentFields es =
     concat (map (\<lambda>e. case e of DocsReplaceAll d reps \<Rightarrow> reps | _ \<Rightarrow> []) es)"

text \<open>
  The most recent approval of a loan, in the words of the specification: approval rows are
  appended, so it is the last row of the region whose reference matches.
\<close>

definition mostRecentApproval :: "row list \<Rightarrow> string \<Rightarrow> row option" where
  "mostRecentApproval rows idPeminjam =
     (case filter (\<lambda>r. 4 < length r \<and> sameID (r ! 4) idPeminjam) rows of
        [] \<Rightarrow> None
      | r # rs \<Rightarrow> Some (last (r # rs)))"

text \<open>No effect of the list writes to the ledger or sends a message.\<close>

definition silent :: "effect list \<Rightarrow> bool" where
  "silent es = list_all (\<lambda>e. \<not> isSheetsUpdate e \<and> \<not> isWaPost e) es"

definition pinjamRequest :: request where
  "pinjamRequest =
     \<lparr>Method = ''POST'',
      FormValue = (\<lambda>k. if k = ''nama'' then ''Citra''
                       else if k = ''noWa'' then ''081234567890''
                       else if k = ''jumlahAlat'' then ''3'' else []),
      FormFile = None\<rparr>"

definition unavailable :: error where
  "unavailable = CollaboratorError ''unavailable''"

text \<open>
  No effect of the list writes to the ledger, sends a message or touches a document
  (\<open>plain\<close>); no effect writes to the ledger or touches a document (\<open>offLedger\<close>).
\<close>

definition plain :: "effect list \<Rightarrow> bool" where
  "plain es = list_all (\<lambda>e. \<not> isSheetsUpdate e \<and> \<not> isWaPost e \<and> \<not> isDocument e) es"

definition offLedger :: "effect list \<Rightarrow> bool" where
  "offLedger es = list_all (\<lambda>e. \<not> isSheetsUpdate e \<and> \<not> isDocument e) es"

text \<open>The number of data rows in the answer to a read of an extent.\<close>

definition dataRows :: "ValueRange option \<Rightarrow> nat" where
  "dataRows resp = (case resp of None \<Rightarrow> 0 | Some vr \<Rightarrow> length (rowsOf vr))"

text \<open>Further ledgers: an identifier held by two rows, an approval row without its status
  cell, a loan whose identifier is not a number.\<close>

definition approveEnvTwice :: approve_env where
  "approveEnvTwice =
     approveEnv\<lparr>ap_get := Inr (Some \<lparr>Values = Some [[''0006''], [''0007''], [''0007'']]\<rparr>)\<rparr>"

definition kembaliEnvShort :: kembali_env where
  "kembaliEnvShort =
     kembaliEnv\<lparr>kb_getApproval :=
       Inr (Some \<lparr>Values = Some [[''0001'', ''2025-01-11'', ''Budi'', ''Pak Andi'', ''0007'']]\<rparr>)\<rparr>"

definition loanRowsAlpha :: "row list" where
  "loanRowsAlpha =
     [[''A7'', ''2025-01-10'', ''Dedi'', ''XI RPL'', ''5678'', ''081234567890'', ''Kamera'', ''1'',
       ''2025-01-10'', ''2025-01-15'']]"

definition kembaliEnvAlpha :: kembali_env where
  "kembaliEnvAlpha =
     kembaliEnv\<lparr>kb_get := Inr \<lparr>Values = Some loanRowsAlpha\<rparr>,
       kb_getApproval := Inr (Some \<lparr>Values = None\<rparr>)\<rparr>"

section \<open>White space and separators\<close>

lemma spaceRunes_nonempty: "w \<in> set spaceRunes \<Longrightarrow> w \<noteq> []"
  by (auto simp: spaceRunes_def)

lemma TrimLeftSpace_Nil: "TrimLeftSpace [] = []"
  by (subst TrimLeftSpace.simps) (simp add: spaceRunes_def)

lemma TrimRightSpace_Nil: "TrimRightSpace [] = []"
  by (subst TrimRightSpace.simps) (simp add: spaceRunes_def)

lemma TrimLeftSpace_6: "TrimLeftSpace (CHR ''6'' # t) = CHR ''6'' # t"
  by (subst TrimLeftSpace.simps) (simp add: spaceRunes_def)

lemma find_suffix_62:
  "find (\<lambda>w. suffix w (CHR ''6'' # CHR ''2'' # r)) spaceRunes = find (\<lambda>w. suffix w r) spaceRunes"
  by (rule find_cong) (auto simp: suffix_Cons spaceRunes_def)

lemma TrimRightSpace_62:
  "TrimRightSpace (CHR ''6'' # CHR ''2'' # r) = CHR ''6'' # CHR ''2'' # TrimRightSpace r"
proof (induction r rule: TrimRightSpace.induct)
  case (1 s)
  show ?case
  proof (cases "find (\<lambda>w. suffix w s) spaceRunes")
    case None
    then show ?thesis
      using find_suffix_62[of s]
      by (subst TrimRightSpace.simps, subst (2) TrimRightSpace.simps) simp
  next
    case (Some w)
    then have "suffix w s" by (auto simp: find_Some_iff)
    then have len: "length w \<le> length s" by (rule suffix_length_le)
    have "TrimRightSpace (CHR ''6'' # CHR ''2'' # s) =
          TrimRightSpace (take (length (CHR ''6'' # CHR ''2'' # s) - length w) (CHR ''6'' # CHR ''2'' # s))"
      using Some find_suffix_62[of s] by (subst TrimRightSpace.simps) simp
    also have "take (length (CHR ''6'' # CHR ''2'' # s) - length w) (CHR ''6'' # CHR ''2'' # s) =
          CHR ''6'' # CHR ''2'' # take (length s - length w) s"
      using len by (simp add: Suc_diff_le)
    also have "TrimRightSpace \<dots> = CHR ''6'' # CHR ''2'' # TrimRightSpace (take (length s - length w) s)"
      using "1.IH"[OF Some] .
    also have "TrimRightSpace (take (length s - length w) s) = TrimRightSpace s"
      using Some by (subst (2) TrimRightSpace.simps) simp
    finally show ?thesis .
  qed
qed

lemma TrimRightSpace_prefix: "prefix (TrimRightSpace s) s"
proof (induction s rule: TrimRightSpace.induct)
  case (1 s)
  show ?case
  proof (cases "find (\<lambda>w. suffix w s) spaceRunes")
    case None
    then show ?thesis by (subst TrimRightSpace.simps) simp
  next
    case (Some w)
    have "prefix (TrimRightSpace (take (length s - length w) s)) (take (length s - length w) s)"
      using "1.IH"[OF Some] .
    moreover have "prefix (take (length s - length w) s) s"
      by (rule take_is_prefix)
    ultimately have "prefix (TrimRightSpace (take (length s - length w) s)) s"
      by (rule prefix_order.trans)
    then show ?thesis using Some by (subst TrimRightSpace.simps) simp
  qed
qed

lemma TrimRightSpace_digit:
  assumes "s \<noteq> []" and "isDigit (last s)"
  shows "TrimRightSpace s = s"
proof -
  have "find (\<lambda>w. suffix w s) spaceRunes = None"
  proof -
    have "\<not> suffix w s" if "w \<in> set spaceRunes" for w
    proof
      assume "suffix w s"
      then obtain p where "s = p @ w" by (auto simp: suffix_def)
      moreover have "w \<noteq> []" using that by (rule spaceRunes_nonempty)
      ultimately have "last s = last w" by simp
      then have "isDigit (last w)" using assms by simp
      then show False using that by (auto simp: spaceRunes_def isDigit_def)
    qed
    then show ?thesis by (auto simp: find_None_iff)
  qed
  then show ?thesis by (subst TrimRightSpace.simps) simp
qed

lemma stripSeparators_eq: "stripSeparators s = filter (\<lambda>c. c \<notin> separators) s"
  by (induction s) (auto simp: stripSeparators_def ReplaceAll_empty_def separators_def)

lemma stripSeparators_id: "set s \<inter> separators = {} \<Longrightarrow> stripSeparators s = s"
  unfolding stripSeparators_eq by (induction s) auto

lemma set_drop1: "set (drop 1 s) \<subseteq> set s"
  by (rule set_drop_subset)

lemma normalize_no_separators: "set (normalizePhoneNumber x) \<inter> separators = {}"
proof -
  let ?no = "stripSeparators (TrimSpace x)"
  have a: "set ?no \<inter> separators = {}"
    by (auto simp: stripSeparators_eq)
  have b: "set (drop 1 ?no) \<inter> separators = {}"
    using a set_drop1[of ?no] by blast
  have c: "set ''62'' \<inter> separators = {}"
    by (simp add: separators_def)
  show ?thesis
    using a b c by (simp add: normalizePhoneNumber_def Let_def Int_Un_distrib2 separators_def)
qed

lemma normalize_shape:
  "normalizePhoneNumber x = [] \<or> (\<exists>r. normalizePhoneNumber x = CHR ''6'' # CHR ''2'' # r)"
  by (auto simp: normalizePhoneNumber_def Let_def HasPrefix_def prefix_def)

lemma normalize_Nil: "normalizePhoneNumber [] = []"
  by (simp add: normalizePhoneNumber_def TrimSpace_def TrimLeftSpace_Nil TrimRightSpace_Nil
      stripSeparators_def ReplaceAll_empty_def HasPrefix_def)

lemma normalize_62:
  assumes "set (CHR ''6'' # CHR ''2'' # r) \<inter> separators = {}"
  shows "normalizePhoneNumber (CHR ''6'' # CHR ''2'' # r) = CHR ''6'' # CHR ''2'' # TrimRightSpace r"
proof -
  have t: "TrimSpace (CHR ''6'' # CHR ''2'' # r) = CHR ''6'' # CHR ''2'' # TrimRightSpace r"
    by (simp only: TrimSpace_def TrimLeftSpace_6 TrimRightSpace_62)
  have "set (TrimRightSpace r) \<subseteq> set r"
    using TrimRightSpace_prefix[of r] by (rule set_mono_prefix)
  then have "set (CHR ''6'' # CHR ''2'' # TrimRightSpace r) \<inter> separators = {}"
    using assms by auto
  then have s: "stripSeparators (CHR ''6'' # CHR ''2'' # TrimRightSpace r) = CHR ''6'' # CHR ''2'' # TrimRightSpace r"
    by (rule stripSeparators_id)
  show ?thesis
    unfolding normalizePhoneNumber_def t s by (simp add: HasPrefix_def)
qed

lemma normalize_twice: "normalizePhoneNumber (normalizePhoneNumber x) = TrimSpace (normalizePhoneNumber x)"
proof -
  consider "normalizePhoneNumber x = []" | r where "normalizePhoneNumber x = CHR ''6'' # CHR ''2'' # r"
    using normalize_shape[of x] by blast
  then show ?thesis
  proof cases
    case 1
    then show ?thesis
      by (simp add: normalize_Nil TrimSpace_def TrimLeftSpace_Nil TrimRightSpace_Nil)
  next
    case 2
    have "set (CHR ''6'' # CHR ''2'' # r) \<inter> separators = {}"
      using normalize_no_separators[of x] 2 by simp
    then have "normalizePhoneNumber (CHR ''6'' # CHR ''2'' # r) = CHR ''6'' # CHR ''2'' # TrimRightSpace r"
      by (rule normalize_62)
    moreover have "TrimSpace (CHR ''6'' # CHR ''2'' # r) = CHR ''6'' # CHR ''2'' # TrimRightSpace r"
      by (simp only: TrimSpace_def TrimLeftSpace_6 TrimRightSpace_62)
    ultimately show ?thesis using 2 by simp
  qed
qed

lemma isDigit_not_separator: "isDigit c \<Longrightarrow> c \<notin> separators"
  by (auto simp: isDigit_def separators_def)

lemma normalize_canonical:
  assumes "canonicalAddress y"
  shows "normalizePhoneNumber y = y"
proof -
  from assms obtain r where y: "y = CHR ''6'' # CHR ''2'' # r" and d: "list_all isDigit y"
    by (auto simp: canonicalAddress_def prefix_def)
  have "set y \<inter> separators = {}"
    using d isDigit_not_separator by (auto simp: list_all_iff)
  then have n: "normalizePhoneNumber y = CHR ''6'' # CHR ''2'' # TrimRightSpace r"
    unfolding y by (rule normalize_62)
  have "TrimRightSpace r = r"
  proof (cases "r = []")
    case True
    then show ?thesis by (simp add: TrimRightSpace_Nil)
  next
    case False
    moreover have "isDigit (last r)"
      using d False unfolding y by (simp add: list_all_iff)
    ultimately show ?thesis by (rule TrimRightSpace_digit)
  qed
  then show ?thesis using n y by simp
qed



section \<open>Lookups\<close>

lemma lookupLoan_tolerant:
  "TrimLeft_zeros a = TrimLeft_zeros b \<Longrightarrow> lookupLoan rows a = lookupLoan rows b"
  by (induction rows) (simp_all add: sameID_def)

lemma lookupLoan_None:
  "lookupLoan rows i = None \<longleftrightarrow>
     (\<forall>r \<in> set rows. \<not> (0 < length r \<and> TrimLeft_zeros (r ! 0) = TrimLeft_zeros i))"
  by (induction rows) (auto simp: sameID_def)

section \<open>The phone normalizer\<close>

text \<open>
  C4. The claim: when the separator-stripped input starts with \<open>+\<close>, the normalizer replaces
  the \<open>+\<close> so that the result is the canonical address, and
  \<open>normalize("+6281234567890")\<close> is \<open>"6281234567890"\<close>. The code puts \<open>62\<close> in the place of the
  \<open>+\<close> (lines 222 to 224), so that an international number, which already carries the
  country code after its \<open>+\<close>, gets the prefix twice.
\<close>

theorem normalize_plus_doubles_prefix:
  "normalizePhoneNumber ''+6281234567890'' = ''626281234567890'' \<and>
   normalizePhoneNumber ''+6281234567890'' \<noteq> ''6281234567890''"
  by code_simp

text \<open>
  C5 as stated (the normalizer is idempotent on every input) fails: white space other than
  the space, standing before a trailing separator, survives the first pass (\<open>TrimSpace\<close> runs
  before the separators are removed) and is trimmed by the second.
\<close>

theorem normalize_not_idempotent:
  "normalizePhoneNumber (normalizePhoneNumber [CHR ''0'', CHR 0x09, CHR ''-'']) \<noteq>
   normalizePhoneNumber [CHR ''0'', CHR 0x09, CHR ''-'']"
  by code_simp

text \<open>
  C5, amended. Normalizing twice is normalizing once and trimming white space; so the
  normalizer is idempotent on every input whose normal form has no trailing white space,
  and normalizing an already canonical address (decimal digits beginning with \<open>62\<close>) returns
  it unchanged.
\<close>

theorem normalize_idempotent_amended:
  "normalizePhoneNumber (normalizePhoneNumber x) = TrimSpace (normalizePhoneNumber x) \<and>
   (TrimSpace (normalizePhoneNumber x) = normalizePhoneNumber x \<longrightarrow>
      normalizePhoneNumber (normalizePhoneNumber x) = normalizePhoneNumber x) \<and>
   (canonicalAddress y \<longrightarrow> normalizePhoneNumber y = y)"
  using normalize_twice[of x] normalize_canonical[of y] by simp

theorem normalize_idempotent_amended_witness:
  "TrimSpace (normalizePhoneNumber ''  0812-3456 (789)0'') = normalizePhoneNumber ''  0812-3456 (789)0'' \<and>
   normalizePhoneNumber (normalizePhoneNumber ''  0812-3456 (789)0'') =
     normalizePhoneNumber ''  0812-3456 (789)0'' \<and>
   canonicalAddress ''6281234567890'' \<and>
   normalizePhoneNumber ''6281234567890'' = ''6281234567890''"
proof -
  have h1: "TrimSpace (normalizePhoneNumber ''  0812-3456 (789)0'') =
      normalizePhoneNumber ''  0812-3456 (789)0''"
    by code_simp
  have h2: "canonicalAddress ''6281234567890''"
    by code_simp
  show ?thesis
    using h1 h2 normalize_idempotent_amended[of "''  0812-3456 (789)0''" "''6281234567890''"]
    by blast
qed

text \<open>
  C7 as stated (the output is a string of decimal digits beginning with \<open>62\<close>, or empty)
  fails: nothing checks the characters after the first one.
\<close>

theorem normalize_output_not_digits:
  "\<not> (canonicalAddress (normalizePhoneNumber ''0abc'') \<or> normalizePhoneNumber ''0abc'' = [])"
  by code_simp

text \<open>
  C7, amended. For every input the output of the normalizer is empty or begins with the
  country prefix \<open>62\<close>; it is a canonical address (decimal digits only) whenever every byte
  after the first one of the separator-stripped input is a decimal digit.
\<close>

theorem normalize_output_shape:
  "(normalizePhoneNumber x = [] \<or> HasPrefix (normalizePhoneNumber x) ''62'') \<and>
   (list_all isDigit (drop 1 (stripSeparators (TrimSpace x))) \<longrightarrow>
      normalizePhoneNumber x = [] \<or> canonicalAddress (normalizePhoneNumber x))"
proof -
  let ?no = "stripSeparators (TrimSpace x)"
  have six: "isDigit (CHR ''6'')" and two: "isDigit (CHR ''2'')"
    by (simp_all add: isDigit_def)
  have a: "normalizePhoneNumber x = [] \<or> HasPrefix (normalizePhoneNumber x) ''62''"
    by (simp add: normalizePhoneNumber_def Let_def HasPrefix_def)
  have b: "normalizePhoneNumber x = [] \<or> canonicalAddress (normalizePhoneNumber x)"
    if d: "list_all isDigit (drop 1 ?no)"
  proof (cases "HasPrefix ?no ''+'' \<or> HasPrefix ?no ''0''")
    case True
    then have "normalizePhoneNumber x = ''62'' @ drop 1 ?no"
      by (auto simp: normalizePhoneNumber_def Let_def)
    then show ?thesis using d six two by (simp add: canonicalAddress_def)
  next
    case False
    show ?thesis
    proof (cases "HasPrefix ?no ''62''")
      case True
      then obtain t where t: "?no = CHR ''6'' # t"
        by (auto simp: HasPrefix_def prefix_def)
      have "normalizePhoneNumber x = ?no"
        using True False by (simp add: normalizePhoneNumber_def Let_def)
      moreover have "list_all isDigit ?no"
        using d six unfolding t by simp
      ultimately show ?thesis using True by (simp add: canonicalAddress_def HasPrefix_def)
    next
      case no62: False
      then show ?thesis using False by (simp add: normalizePhoneNumber_def Let_def)
    qed
  qed
  show ?thesis using a b by blast
qed

theorem normalize_output_shape_witness:
  "list_all isDigit (drop 1 (stripSeparators (TrimSpace ''0812-3456 7890''))) \<and>
   canonicalAddress (normalizePhoneNumber ''0812-3456 7890'') \<and>
   HasPrefix (normalizePhoneNumber ''0812-3456 7890'') ''62''"
proof -
  have h: "list_all isDigit (drop 1 (stripSeparators (TrimSpace ''0812-3456 7890'')))"
    by code_simp
  have n: "normalizePhoneNumber ''0812-3456 7890'' \<noteq> []"
    by code_simp
  show ?thesis
    using h n normalize_output_shape[of "''0812-3456 7890''"] by blast
qed

section \<open>Sending a message\<close>

text \<open>
  C10. \<open>kirimPesanWaBangkit\<close> normalizes the recipient itself; when the normal form does not
  begin with \<open>62\<close> it returns an error and issues no request, and every request it issues
  goes to the normal form of the recipient, which begins with \<open>62\<close>.
\<close>

theorem kirim_only_to_country_prefix:
  "(\<not> HasPrefix (normalizePhoneNumber no) ''62'' \<longrightarrow>
      kirimPesanWaBangkit post no pesan = ([], Some FormatNomorWA)) \<and>
   (\<forall>e \<in> set (fst (kirimPesanWaBangkit post no pesan)).
      e = WaPost (normalizePhoneNumber no) pesan \<and> HasPrefix (normalizePhoneNumber no) ''62'')"
  by (auto simp: kirimPesanWaBangkit_def Let_def split: http_result.splits)

theorem kirim_only_to_country_prefix_witness:
  "\<not> HasPrefix (normalizePhoneNumber ''812345'') ''62'' \<and>
   kirimPesanWaBangkit postOk ''812345'' (Pesan ''pesan'' []) = ([], Some FormatNomorWA) \<and>
   fst (kirimPesanWaBangkit postOk ''0812345'' (Pesan ''pesan'' [])) =
     [WaPost ''62812345'' (Pesan ''pesan'' [])] \<and>
   HasPrefix (normalizePhoneNumber ''0812345'') ''62''"
proof -
  have h: "\<not> HasPrefix (normalizePhoneNumber ''812345'') ''62''"
    by code_simp
  have s: "fst (kirimPesanWaBangkit postOk ''0812345'' (Pesan ''pesan'' [])) =
      [WaPost ''62812345'' (Pesan ''pesan'' [])]"
    by code_simp
  have "kirimPesanWaBangkit postOk ''812345'' (Pesan ''pesan'' []) = ([], Some FormatNomorWA)"
    using h kirim_only_to_country_prefix[of "''812345''" postOk "Pesan ''pesan'' []"] by blast
  moreover have "HasPrefix (normalizePhoneNumber ''0812345'') ''62''"
    using s kirim_only_to_country_prefix[of "''0812345''" postOk "Pesan ''pesan'' []"] by simp
  ultimately show ?thesis using h s by blast
qed

section \<open>Resolving a loan identifier\<close>

text \<open>
  C1. The claim: every lookup by loan identifier compares both sides after stripping the
  leading zeros, so that \<open>"0007"\<close> and \<open>"7"\<close> resolve to the same row. \<open>lookupLoan\<close>, the lookup
  of \<open>handleApprovalRequestNew\<close> and \<open>handlePengembalian\<close>, does so (\<open>lookupLoan_tolerant\<close>);
  \<open>handleApprove\<close> compares the cell as it is (line 589): on a ledger whose identifier column
  holds \<open>0007\<close>, the identifier \<open>0007\<close> is found and \<open>7\<close> is not.
\<close>

theorem handleApprove_exact_match:
  "handleApprove approveEnv ''0007'' ''Pak Andi'' ''Approved'' =
     [SheetsUpdate (''Form Peminjam'', 16, 6) [''Approved''],
      SheetsUpdate (''Form Peminjam'', 17, 6) [''2025-01-20''],
      SheetsUpdate (''Form Peminjam'', 18, 6) [''Pak Andi''],
      Reply 200 ''Approval berhasil dikirim''] \<and>
   handleApprove approveEnv ''7'' ''Pak Andi'' ''Approved'' = [Reply 400 ''ID Pinjam tidak ditemukan'']"
  by (simp add: handleApprove_def approveEnv_def approveWrites_def clock0_def)

section \<open>Effects that leave the ledger and the messaging service alone\<close>

lemma silent_Nil: "silent []"
  by (simp add: silent_def)

lemma silent_append: "silent (xs @ ys) \<longleftrightarrow> silent xs \<and> silent ys"
  by (simp add: silent_def)

lemma silent_Cons: "silent (e # es) \<longleftrightarrow> \<not> isSheetsUpdate e \<and> \<not> isWaPost e \<and> silent es"
  by (simp add: silent_def)

lemmas silent_simps = silent_Nil silent_append silent_Cons isSheetsUpdate_def isWaPost_def


lemma silent_stage: "silent (fst (stage r saved))"
  by (simp add: stage_def silent_simps split: sum.split option.split)

lemma silent_prefetch: "silent (fst (prefetch env))"
  by (simp add: prefetch_def silent_simps split: sum.split option.split)

lemma silent_joinRead: "silent (fst (joinRead env i form))"
  by (simp add: joinRead_def silent_simps split: sum.split option.split)

lemma plain_Nil: "plain []"
  by (simp add: plain_def)

lemma plain_append: "plain (xs @ ys) \<longleftrightarrow> plain xs \<and> plain ys"
  by (simp add: plain_def)

lemma plain_Cons:
  "plain (e # es) \<longleftrightarrow> \<not> isSheetsUpdate e \<and> \<not> isWaPost e \<and> \<not> isDocument e \<and> plain es"
  by (simp add: plain_def)

lemmas plain_simps = plain_Nil plain_append plain_Cons isSheetsUpdate_def isWaPost_def isDocument_def

lemma plain_silent: "plain es \<Longrightarrow> silent es"
  by (induction es) (auto simp: plain_def silent_def)

lemma plain_offLedger: "plain es \<Longrightarrow> offLedger es"
  by (induction es) (auto simp: plain_def offLedger_def)

lemma offLedger_Nil: "offLedger []"
  by (simp add: offLedger_def)

lemma offLedger_append: "offLedger (xs @ ys) \<longleftrightarrow> offLedger xs \<and> offLedger ys"
  by (simp add: offLedger_def)

lemma offLedger_Cons:
  "offLedger (e # es) \<longleftrightarrow> \<not> isSheetsUpdate e \<and> \<not> isDocument e \<and> offLedger es"
  by (simp add: offLedger_def)

lemmas offLedger_simps = offLedger_Nil offLedger_append offLedger_Cons isSheetsUpdate_def
  isDocument_def

lemma offLedger_filter: "offLedger es \<Longrightarrow> filter isSheetsUpdate es = []"
  by (induction es) (auto simp: offLedger_def)

lemma offLedger_fields: "offLedger es \<Longrightarrow> documentFields es = []"
proof (induction es)
  case Nil
  then show ?case by (simp add: documentFields_def)
next
  case (Cons e es)
  then have "documentFields es = []" and "\<not> isDocument e"
    by (simp_all add: offLedger_def)
  then show ?case
    by (cases e) (simp_all add: documentFields_def isDocument_def)
qed

lemma plain_stage: "plain (fst (stage r saved))"
  by (simp add: stage_def plain_simps split: sum.split option.split)

lemma plain_prefetch: "plain (fst (prefetch env))"
  by (simp add: prefetch_def plain_simps split: sum.split option.split)

lemma plain_joinRead: "plain (fst (joinRead env i form))"
  by (simp add: joinRead_def plain_simps split: sum.split option.split)

lemma offLedger_notify: "offLedger (notify post no pesan failure)"
  by (simp add: notify_def kirimPesanWaBangkit_def Let_def offLedger_simps
      split: http_result.split)

lemma offLedger_pinjamNotify: "offLedger (pinjamNotify env form row pdf)"
  by (simp add: pinjamNotify_def Let_def offLedger_simps offLedger_notify)

lemma offLedger_approvalNotify: "offLedger (approvalNotify env rows form i a s d)"
  by (simp add: approvalNotify_def Let_def offLedger_simps offLedger_notify)

lemma offLedger_kembaliNotify: "offLedger (kembaliNotify env form k ket pdf)"
  by (simp add: kembaliNotify_def Let_def offLedger_simps offLedger_notify)

lemma render_ok:
  assumes "copyTemplate re = Inr docID" and "batchUpdate re = None" and "finish re = FinishOk pdfID"
  shows "render re t title reps imgs k =
           ([DriveCopy t title, DocsReplaceAll docID reps, DocsFinish docID imgs],
            Returned (pdfURLof pdfID, docURLof docID, None))"
  using assms by (simp add: render_def)

section \<open>A failed read of the extent\<close>

















section \<open>A return for an unknown loan\<close>

text \<open>
  C8. When no row of the loan region has a first cell equal to the identifier after the
  leading zeros are stripped, the Return pipeline writes no row and sends no notification;
  when the request is a POST and the services are available, all it does after the
  acknowledgement is to log that the identifier was not found.
\<close>

theorem return_not_found_aborts:
  assumes "kb_get env = Inr resp"
    and "\<forall>row \<in> set (rowsOf resp).
           \<not> (0 < length row \<and>
              TrimLeft_zeros (row ! 0) = TrimLeft_zeros (FormValue r ''idPeminjam''))"
  shows "silent (handlePengembalian env r) \<and>
         (Method r = ''POST'' \<and> kb_services env = None \<longrightarrow>
            handlePengembalian env r =
              fst (stage r (kb_save env)) @
              [Reply 200 ''Data pengembalian berhasil diterima dan sedang diproses'',
               LogLine ''ID Peminjam tidak ditemukan di sheet peminjaman''])"
proof -
  have none: "lookupLoan (rowsOf resp) (FormValue r ''idPeminjam'') = None"
    using assms(2) by (simp add: lookupLoan_None)
  have async: "kembaliAsync env (FormValue r ''idPeminjam'') k ket lp =
      (case kb_services env of
         Some e \<Rightarrow> [LogLine ''Service error:'']
       | None \<Rightarrow> [LogLine ''ID Peminjam tidak ditemukan di sheet peminjaman''])" for k ket lp
    using assms(1) none by (simp add: kembaliAsync_def split: option.split)
  show ?thesis
    by (simp add: handlePengembalian_def Let_def async silent_simps silent_stage
        split: option.split)
qed

theorem return_not_found_aborts_witness:
  "kb_get kembaliEnv = Inr \<lparr>Values = Some loanRows\<rparr> \<and>
   list_all (\<lambda>row. \<not> (0 < length row \<and> TrimLeft_zeros (row ! 0) = TrimLeft_zeros ''8''))
     (rowsOf \<lparr>Values = Some loanRows\<rparr>) \<and>
   silent (handlePengembalian kembaliEnv (kembaliRequest ''8'')) \<and>
   handlePengembalian kembaliEnv (kembaliRequest ''8'') =
     [Reply 200 ''Data pengembalian berhasil diterima dan sedang diproses'',
      LogLine ''ID Peminjam tidak ditemukan di sheet peminjaman'']"
proof -
  have h1: "kb_get kembaliEnv = Inr \<lparr>Values = Some loanRows\<rparr>"
    by (simp add: kembaliEnv_def)
  have h2: "list_all (\<lambda>row. \<not> (0 < length row \<and> TrimLeft_zeros (row ! 0) = TrimLeft_zeros ''8''))
     (rowsOf \<lparr>Values = Some loanRows\<rparr>)"
    by (simp add: rowsOf_def loanRows_def TrimLeft_zeros_def)
  have h2': "\<forall>row \<in> set (rowsOf \<lparr>Values = Some loanRows\<rparr>).
      \<not> (0 < length row \<and>
         TrimLeft_zeros (row ! 0) = TrimLeft_zeros (FormValue (kembaliRequest ''8'') ''idPeminjam''))"
    using h2 by (simp add: list_all_iff kembaliRequest_def)
  have h3: "Method (kembaliRequest ''8'') = ''POST'' \<and> kb_services kembaliEnv = None"
    by (simp add: kembaliRequest_def kembaliEnv_def)
  have h4: "fst (stage (kembaliRequest ''8'') (kb_save kembaliEnv)) = []"
    by (simp add: stage_def kembaliRequest_def)
  show ?thesis
    using h1 h2 h3 h4 return_not_found_aborts[OF h1 h2'] by (simp add: silent_simps)
qed

section \<open>The status-only approval\<close>

lemma findRowIndex_first:
  "findRowIndex rows i k \<noteq> - 1 \<Longrightarrow> 0 \<le> k \<Longrightarrow>
     \<exists>j < length rows. findRowIndex rows i k = k + int j + 5 \<and> 0 < length (rows ! j) \<and>
        rows ! j ! 0 = i \<and> (\<forall>m < j. \<not> (0 < length (rows ! m) \<and> rows ! m ! 0 = i))"
proof (induction rows arbitrary: k)
  case Nil
  then show ?case by simp
next
  case (Cons r rows)
  show ?case
  proof (cases "0 < length r \<and> r ! 0 = i")
    case True
    then have "0 < length (r # rows) \<and> findRowIndex (r # rows) i k = k + int 0 + 5 \<and>
        0 < length ((r # rows) ! 0) \<and> (r # rows) ! 0 ! 0 = i \<and>
        (\<forall>m < 0. \<not> (0 < length ((r # rows) ! m) \<and> (r # rows) ! m ! 0 = i))"
      by simp
    then show ?thesis by blast
  next
    case False
    then have eq: "findRowIndex (r # rows) i k = findRowIndex rows i (k + 1)"
      by auto
    with Cons.prems have "findRowIndex rows i (k + 1) \<noteq> - 1" and "0 \<le> k + 1"
      by simp_all
    from Cons.IH[OF this] obtain j where j: "j < length rows"
      "findRowIndex rows i (k + 1) = k + 1 + int j + 5" "0 < length (rows ! j)" "rows ! j ! 0 = i"
      "\<forall>m < j. \<not> (0 < length (rows ! m) \<and> rows ! m ! 0 = i)"
      by blast
    have before: "\<forall>m < Suc j. \<not> (0 < length ((r # rows) ! m) \<and> (r # rows) ! m ! 0 = i)"
    proof (intro allI impI)
      fix m assume "m < Suc j"
      then show "\<not> (0 < length ((r # rows) ! m) \<and> (r # rows) ! m ! 0 = i)"
        using False j(5) by (cases m) auto
    qed
    have "Suc j < length (r # rows) \<and> findRowIndex (r # rows) i k = k + int (Suc j) + 5 \<and>
        0 < length ((r # rows) ! Suc j) \<and> (r # rows) ! Suc j ! 0 = i"
      using eq j by simp
    with before show ?thesis by blast
  qed
qed

lemma approveWrites_frame:
  assumes "a \<noteq> (''Form Peminjam'', 16, rowIndex)" "a \<noteq> (''Form Peminjam'', 17, rowIndex)"
    "a \<noteq> (''Form Peminjam'', 18, rowIndex)"
  shows "applyEffects l (approveWrites env rowIndex approver st) a = l a"
  using assms by (simp add: approveWrites_def applyEffects_def split: option.split)

lemma approveWrites_quiet:
  "list_all (\<lambda>e. \<not> isDocument e \<and> \<not> isWaPost e) (approveWrites env rowIndex approver st)"
  by (simp add: approveWrites_def isDocument_def isWaPost_def split: option.split)

text \<open>
  C9 as stated (with the three fields present and a matching row found, exactly three cells
  are written) fails: each write returns at its own error (lines 604 to 608, 615 to 619,
  626 to 630). When the write of the date fails, only the status cell has been written.
\<close>

theorem approve_partial_write:
  "handleApprove (approveEnv\<lparr>ap_updateDate := Some unavailable\<rparr>) ''0007'' ''Pak Andi'' ''Approved'' =
     [SheetsUpdate (''Form Peminjam'', 16, 6) [''Approved''],
      Reply 500 ''Gagal update tanggal persetujuan'',
      LogLine ''Sheets update error (date):'']"
  by (simp add: handleApprove_def approveEnv_def approveWrites_def)

text \<open>
  C9, amended. For a status-only Approve with identifier, approver and decision present
  whose lookup finds a row, the row is the first one of the region that the lookup of lines
  588 to 593 accepts. When the three ledger writes succeed, the operation writes exactly the
  cells Q, R and S of that row (status, timestamp, approver) and acknowledges. When a write
  fails, the operation stops at that write, answers status 500 and logs the failure; the
  cells written before it stay written. In every case no cell other than these three
  changes, no document is rendered and no notification is sent.
\<close>

theorem approve_status_only_frame:
  assumes "idPinjam \<noteq> []" "approver \<noteq> []" "statusPersetujuan \<noteq> []"
    and "ap_services env = None" "ap_get env = Inr (Some resp)" "Values resp = Some rows"
    and "findRowIndex rows idPinjam 0 \<noteq> - 1"
  shows "(\<exists>j < length rows. findRowIndex rows idPinjam 0 = int j + 5 \<and> 0 < length (rows ! j) \<and>
            rows ! j ! 0 = idPinjam \<and>
            (\<forall>m < j. \<not> (0 < length (rows ! m) \<and> rows ! m ! 0 = idPinjam))) \<and>
         (ap_updateStatus env = None \<and> ap_updateDate env = None \<and> ap_updateApprover env = None \<longrightarrow>
            handleApprove env idPinjam approver statusPersetujuan =
              [SheetsUpdate (''Form Peminjam'', 16, findRowIndex rows idPinjam 0) [statusPersetujuan],
               SheetsUpdate (''Form Peminjam'', 17, findRowIndex rows idPinjam 0)
                 [now (ap_clock env) ''2006-01-02 15:04:05''],
               SheetsUpdate (''Form Peminjam'', 18, findRowIndex rows idPinjam 0) [approver],
               Reply 200 ''Approval berhasil dikirim'']) \<and>
         (ap_updateStatus env \<noteq> None \<longrightarrow>
            handleApprove env idPinjam approver statusPersetujuan =
              [Reply 500 ''Gagal update status approval'',
               LogLine ''Sheets update error (status):'']) \<and>
         (ap_updateStatus env = None \<and> ap_updateDate env \<noteq> None \<longrightarrow>
            handleApprove env idPinjam approver statusPersetujuan =
              [SheetsUpdate (''Form Peminjam'', 16, findRowIndex rows idPinjam 0) [statusPersetujuan],
               Reply 500 ''Gagal update tanggal persetujuan'',
               LogLine ''Sheets update error (date):'']) \<and>
         (ap_updateStatus env = None \<and> ap_updateDate env = None \<and> ap_updateApprover env \<noteq> None \<longrightarrow>
            handleApprove env idPinjam approver statusPersetujuan =
              [SheetsUpdate (''Form Peminjam'', 16, findRowIndex rows idPinjam 0) [statusPersetujuan],
               SheetsUpdate (''Form Peminjam'', 17, findRowIndex rows idPinjam 0)
                 [now (ap_clock env) ''2006-01-02 15:04:05''],
               Reply 500 ''Gagal update nama approver'',
               LogLine ''Sheets update error (approver):'']) \<and>
         (\<forall>a. a \<noteq> (''Form Peminjam'', 16, findRowIndex rows idPinjam 0) \<and>
              a \<noteq> (''Form Peminjam'', 17, findRowIndex rows idPinjam 0) \<and>
              a \<noteq> (''Form Peminjam'', 18, findRowIndex rows idPinjam 0) \<longrightarrow>
              applyEffects l (handleApprove env idPinjam approver statusPersetujuan) a = l a) \<and>
         list_all (\<lambda>e. \<not> isDocument e \<and> \<not> isWaPost e)
           (handleApprove env idPinjam approver statusPersetujuan)"
proof -
  let ?ri = "findRowIndex rows idPinjam 0"
  let ?w = "approveWrites env ?ri approver statusPersetujuan"
  have h: "handleApprove env idPinjam approver statusPersetujuan = ?w"
    using assms by (simp add: handleApprove_def Let_def)
  have a: "\<exists>j < length rows. ?ri = int j + 5 \<and> 0 < length (rows ! j) \<and> rows ! j ! 0 = idPinjam \<and>
      (\<forall>m < j. \<not> (0 < length (rows ! m) \<and> rows ! m ! 0 = idPinjam))"
    using findRowIndex_first[OF assms(7)] by simp
  have b: "ap_updateStatus env = None \<and> ap_updateDate env = None \<and> ap_updateApprover env = None \<longrightarrow>
      ?w = [SheetsUpdate (''Form Peminjam'', 16, ?ri) [statusPersetujuan],
            SheetsUpdate (''Form Peminjam'', 17, ?ri) [now (ap_clock env) ''2006-01-02 15:04:05''],
            SheetsUpdate (''Form Peminjam'', 18, ?ri) [approver],
            Reply 200 ''Approval berhasil dikirim'']"
    by (simp add: approveWrites_def)
  have f1: "ap_updateStatus env \<noteq> None \<longrightarrow>
      ?w = [Reply 500 ''Gagal update status approval'', LogLine ''Sheets update error (status):'']"
    by (auto simp: approveWrites_def)
  have f2: "ap_updateStatus env = None \<and> ap_updateDate env \<noteq> None \<longrightarrow>
      ?w = [SheetsUpdate (''Form Peminjam'', 16, ?ri) [statusPersetujuan],
            Reply 500 ''Gagal update tanggal persetujuan'', LogLine ''Sheets update error (date):'']"
    by (auto simp: approveWrites_def)
  have f3: "ap_updateStatus env = None \<and> ap_updateDate env = None \<and> ap_updateApprover env \<noteq> None \<longrightarrow>
      ?w = [SheetsUpdate (''Form Peminjam'', 16, ?ri) [statusPersetujuan],
            SheetsUpdate (''Form Peminjam'', 17, ?ri) [now (ap_clock env) ''2006-01-02 15:04:05''],
            Reply 500 ''Gagal update nama approver'', LogLine ''Sheets update error (approver):'']"
    by (auto simp: approveWrites_def)
  have c: "\<forall>a. a \<noteq> (''Form Peminjam'', 16, ?ri) \<and> a \<noteq> (''Form Peminjam'', 17, ?ri) \<and>
      a \<noteq> (''Form Peminjam'', 18, ?ri) \<longrightarrow> applyEffects l ?w a = l a"
    using approveWrites_frame by blast
  have d: "list_all (\<lambda>e. \<not> isDocument e \<and> \<not> isWaPost e) ?w"
    by (rule approveWrites_quiet)
  show ?thesis
    unfolding h using a b f1 f2 f3 c d by (intro conjI)
qed


theorem approve_status_only_frame_witness:
  "findRowIndex [[''0006''], [''0007''], [''0007'']] ''0007'' 0 = 6 \<and>
   handleApprove approveEnvTwice ''0007'' ''Pak Andi'' ''Approved'' =
     [SheetsUpdate (''Form Peminjam'', 16, 6) [''Approved''],
      SheetsUpdate (''Form Peminjam'', 17, 6) [''2025-01-20''],
      SheetsUpdate (''Form Peminjam'', 18, 6) [''Pak Andi''],
      Reply 200 ''Approval berhasil dikirim''] \<and>
   handleApprove (approveEnvTwice\<lparr>ap_updateStatus := Some unavailable\<rparr>)
       ''0007'' ''Pak Andi'' ''Approved'' =
     [Reply 500 ''Gagal update status approval'', LogLine ''Sheets update error (status):''] \<and>
   handleApprove (approveEnvTwice\<lparr>ap_updateDate := Some unavailable\<rparr>)
       ''0007'' ''Pak Andi'' ''Approved'' =
     [SheetsUpdate (''Form Peminjam'', 16, 6) [''Approved''],
      Reply 500 ''Gagal update tanggal persetujuan'', LogLine ''Sheets update error (date):''] \<and>
   handleApprove (approveEnvTwice\<lparr>ap_updateApprover := Some unavailable\<rparr>)
       ''0007'' ''Pak Andi'' ''Approved'' =
     [SheetsUpdate (''Form Peminjam'', 16, 6) [''Approved''],
      SheetsUpdate (''Form Peminjam'', 17, 6) [''2025-01-20''],
      Reply 500 ''Gagal update nama approver'', LogLine ''Sheets update error (approver):''] \<and>
   applyEffects (\<lambda>a. ''old'')
     (handleApprove (approveEnvTwice\<lparr>ap_updateApprover := Some unavailable\<rparr>)
        ''0007'' ''Pak Andi'' ''Approved'')
     (''Form Peminjam'', 16, 7) = ''old'' \<and>
   applyEffects (\<lambda>a. ''old'') (handleApprove approveEnvTwice ''0007'' ''Pak Andi'' ''Approved'')
     (''Form Peminjam'', 0, 6) = ''old'' \<and>
   list_all (\<lambda>e. \<not> isDocument e \<and> \<not> isWaPost e)
     (handleApprove approveEnvTwice ''0007'' ''Pak Andi'' ''Approved'')"
proof -
  let ?rows = "[[''0006''], [''0007''], [''0007'']]"
  let ?resp = "\<lparr>Values = Some ?rows\<rparr>"
  have i: "''0007'' \<noteq> []" "''Pak Andi'' \<noteq> []" "''Approved'' \<noteq> []"
    by simp_all
  have ri: "findRowIndex ?rows ''0007'' 0 = 6"
    by simp
  then have found: "findRowIndex ?rows ''0007'' 0 \<noteq> - 1"
    by simp
  have v: "Values ?resp = Some ?rows"
    by simp
  have e0: "ap_services approveEnvTwice = None" "ap_get approveEnvTwice = Inr (Some ?resp)"
    "ap_updateStatus approveEnvTwice = None \<and> ap_updateDate approveEnvTwice = None \<and>
     ap_updateApprover approveEnvTwice = None"
    "now (ap_clock approveEnvTwice) ''2006-01-02 15:04:05'' = ''2025-01-20''"
    by (simp_all add: approveEnvTwice_def approveEnv_def clock0_def)
  let ?e1 = "approveEnvTwice\<lparr>ap_updateStatus := Some unavailable\<rparr>"
  have e1: "ap_services ?e1 = None" "ap_get ?e1 = Inr (Some ?resp)" "ap_updateStatus ?e1 \<noteq> None"
    by (simp_all add: approveEnvTwice_def approveEnv_def)
  let ?e2 = "approveEnvTwice\<lparr>ap_updateDate := Some unavailable\<rparr>"
  have e2: "ap_services ?e2 = None" "ap_get ?e2 = Inr (Some ?resp)"
    "ap_updateStatus ?e2 = None \<and> ap_updateDate ?e2 \<noteq> None"
    by (simp_all add: approveEnvTwice_def approveEnv_def)
  let ?e3 = "approveEnvTwice\<lparr>ap_updateApprover := Some unavailable\<rparr>"
  have e3: "ap_services ?e3 = None" "ap_get ?e3 = Inr (Some ?resp)"
    "ap_updateStatus ?e3 = None \<and> ap_updateDate ?e3 = None \<and> ap_updateApprover ?e3 \<noteq> None"
    "now (ap_clock ?e3) ''2006-01-02 15:04:05'' = ''2025-01-20''"
    by (simp_all add: approveEnvTwice_def approveEnv_def clock0_def)
  note t0 = approve_status_only_frame[OF i e0(1) e0(2) v found, of "\<lambda>a. ''old''", unfolded ri]
  note t1 = approve_status_only_frame[OF i e1(1) e1(2) v found, of "\<lambda>a. ''old''", unfolded ri]
  note t2 = approve_status_only_frame[OF i e2(1) e2(2) v found, of "\<lambda>a. ''old''", unfolded ri]
  note t3 = approve_status_only_frame[OF i e3(1) e3(2) v found, of "\<lambda>a. ''old''", unfolded ri]
  have c0: "handleApprove approveEnvTwice ''0007'' ''Pak Andi'' ''Approved'' =
     [SheetsUpdate (''Form Peminjam'', 16, 6) [''Approved''],
      SheetsUpdate (''Form Peminjam'', 17, 6) [''2025-01-20''],
      SheetsUpdate (''Form Peminjam'', 18, 6) [''Pak Andi''],
      Reply 200 ''Approval berhasil dikirim'']"
    using t0 e0(3) e0(4) by simp
  have c1: "handleApprove ?e1 ''0007'' ''Pak Andi'' ''Approved'' =
     [Reply 500 ''Gagal update status approval'', LogLine ''Sheets update error (status):'']"
    using t1 e1(3) by blast
  have c2: "handleApprove ?e2 ''0007'' ''Pak Andi'' ''Approved'' =
     [SheetsUpdate (''Form Peminjam'', 16, 6) [''Approved''],
      Reply 500 ''Gagal update tanggal persetujuan'', LogLine ''Sheets update error (date):'']"
    using t2 e2(3) by blast
  have c3: "handleApprove ?e3 ''0007'' ''Pak Andi'' ''Approved'' =
     [SheetsUpdate (''Form Peminjam'', 16, 6) [''Approved''],
      SheetsUpdate (''Form Peminjam'', 17, 6) [''2025-01-20''],
      Reply 500 ''Gagal update nama approver'', LogLine ''Sheets update error (approver):'']"
    using t3 e3(3) e3(4) by simp
  from t3 have f3: "\<forall>a. a \<noteq> (''Form Peminjam'', 16, 6) \<and> a \<noteq> (''Form Peminjam'', 17, 6) \<and>
      a \<noteq> (''Form Peminjam'', 18, 6) \<longrightarrow>
      applyEffects (\<lambda>a. ''old'') (handleApprove ?e3 ''0007'' ''Pak Andi'' ''Approved'') a = ''old''"
    by blast
  have c4: "applyEffects (\<lambda>a. ''old'') (handleApprove ?e3 ''0007'' ''Pak Andi'' ''Approved'')
     (''Form Peminjam'', 16, 7) = ''old''"
    using f3 by simp
  from t0 have f0: "\<forall>a. a \<noteq> (''Form Peminjam'', 16, 6) \<and> a \<noteq> (''Form Peminjam'', 17, 6) \<and>
      a \<noteq> (''Form Peminjam'', 18, 6) \<longrightarrow>
      applyEffects (\<lambda>a. ''old'') (handleApprove approveEnvTwice ''0007'' ''Pak Andi'' ''Approved'') a =
        ''old''"
    by blast
  have c5: "applyEffects (\<lambda>a. ''old'') (handleApprove approveEnvTwice ''0007'' ''Pak Andi'' ''Approved'')
     (''Form Peminjam'', 0, 6) = ''old''"
    using f0 by simp
  from t0 have c6: "list_all (\<lambda>e. \<not> isDocument e \<and> \<not> isWaPost e)
     (handleApprove approveEnvTwice ''0007'' ''Pak Andi'' ''Approved'')"
    by blast
  show ?thesis
    using ri c0 c1 c2 c3 c4 c5 c6 by (intro conjI)
qed

section \<open>The approval joined by a return\<close>

lemma joinApproval_first:
  assumes "\<forall>p \<in> set pre. \<not> (4 < length p \<and> sameID (p ! 4) i)"
    and "4 < length a" and "sameID (a ! 4) i"
  shows "joinApproval (pre @ a # post) i form = setApproval a form"
  using assms by (induction pre) auto

lemma documentFields_Nil: "documentFields [] = []"
  by (simp add: documentFields_def)

lemma documentFields_append: "documentFields (xs @ ys) = documentFields xs @ documentFields ys"
  by (simp add: documentFields_def)

lemma documentFields_render:
  assumes "copyTemplate re = Inr docID" and "batchUpdate re = None"
  shows "documentFields (fst (render re t title reps imgs k)) = reps"
  using assms by (simp add: render_def documentFields_def split: finish_result.split)

lemma documentFields_silent_tail:
  "documentFields (e # es) = (case e of DocsReplaceAll d reps \<Rightarrow> reps | _ \<Rightarrow> []) @ documentFields es"
  by (simp add: documentFields_def)

lemma documentFields_notify: "documentFields (notify post no pesan failure) = []"
  by (simp add: notify_def kirimPesanWaBangkit_def Let_def documentFields_def
      split: http_result.split)

lemma documentFields_kembaliNotify: "documentFields (kembaliNotify env form k ket pdf) = []"
  by (simp add: kembaliNotify_def Let_def documentFields_append documentFields_notify)
     (simp add: documentFields_def)

lemma documentFields_kembaliStore:
  assumes "kb_getPengembalian env = Inr respP"
    and "copyTemplate (kb_render env) = Inr docID" and "batchUpdate (kb_render env) = None"
  shows "\<exists>form' n. documentFields (kembaliStore env form i k ket lp) =
           replacementsPengembalian (kb_clock env) form' n \<and>
           ApprovalDate form' = ApprovalDate form \<and> ApprovalStatus form' = ApprovalStatus form \<and>
           ApproverName form' = ApproverName form"
proof -
  define form' where "form' =
     snd (if lp \<noteq> []
          then (case kb_upload env of
                  Inr url \<Rightarrow> ([DriveUpload lp, RemoveLocal lp], form\<lparr>FotoPath := url\<rparr>)
                | Inl e \<Rightarrow>
                    ([LogLine ''Gagal upload foto pengembalian ke Drive:'', RemoveLocal lp],
                     form\<lparr>FotoPath := ''Gagal upload''\<rparr>))
          else ([], form))"
  define n where "n = (case Atoi i of (v, ok) \<Rightarrow> if ok then v else nextRowPengembalian respP)"
  let ?g = "generateSuratPengembalian (kb_clock env) (kb_render env) form' n"
  have same: "ApprovalDate form' = ApprovalDate form \<and> ApprovalStatus form' = ApprovalStatus form \<and>
      ApproverName form' = ApproverName form"
    by (simp add: form'_def split: sum.split)
  have g: "documentFields (fst ?g) = replacementsPengembalian (kb_clock env) form' n"
    unfolding generateSuratPengembalian_def using assms(2,3) by (rule documentFields_render)
  have ups: "documentFields (fst (if lp \<noteq> []
          then (case kb_upload env of
                  Inr url \<Rightarrow> ([DriveUpload lp, RemoveLocal lp], form\<lparr>FotoPath := url\<rparr>)
                | Inl e \<Rightarrow>
                    ([LogLine ''Gagal upload foto pengembalian ke Drive:'', RemoveLocal lp],
                     form\<lparr>FotoPath := ''Gagal upload''\<rparr>))
          else ([], form))) = []"
    by (simp add: documentFields_def split: sum.split)
  have "documentFields (kembaliStore env form i k ket lp) =
      replacementsPengembalian (kb_clock env) form' n"
    using g ups assms(1)
    by (cases ?g)
       (auto simp: kembaliStore_def Let_def form'_def[symmetric] n_def[symmetric]
          documentFields_append documentFields_silent_tail documentFields_kembaliNotify
          documentFields_Nil
          split: outcome.split option.split)
  then show ?thesis using same by blast
qed

text \<open>
  C3 as stated (when several approval rows match, the most recent one is joined) fails: the
  loop of lines 1132 to 1149 stops at the first match. With two approvals of loan 7, the
  later one by Bu Sari, the return document carries the fields of the earlier one.
\<close>

theorem return_joins_first_not_latest:
  "map_of (documentFields (handlePengembalian kembaliEnv (kembaliRequest ''7''))) ''<<YNG>>'' =
     Some ''Pak Andi'' \<and>
   map_of (documentFields (handlePengembalian kembaliEnv (kembaliRequest ''7''))) ''<<TGLPS>>'' =
     Some ''2025-01-11'' \<and>
   map_of (documentFields (handlePengembalian kembaliEnv (kembaliRequest ''7''))) ''<<STS>>'' =
     Some ''Rejected'' \<and>
   mostRecentApproval approvalRows ''7'' =
     Some [''0002'', ''2025-01-12'', ''Budi'', ''Bu Sari'', ''7'', ''Approved'']"
  by code_simp

text \<open>
  C3, amended. When the loan row is found (with its ten cells), the approval region is read
  and the document is generated, the return document carries the date, the status (empty
  when the row ends before its status cell) and the approver of the first row of the
  approval region that has a reference cell matching the identifier after the leading zeros
  are stripped, whatever later rows match; with a single approval referencing \<open>0007\<close>, a
  return for \<open>7\<close> carries that approval.
\<close>

theorem return_joins_first_approval:
  assumes "kb_services env = None" and "kb_get env = Inr resp"
    and "lookupLoan (rowsOf resp) idPeminjam = Some r" and "10 \<le> length r"
    and "kb_getApproval env = Inr (Some respApproval)"
    and "Values respApproval = Some (pre @ a # post)"
    and "\<forall>p \<in> set pre. \<not> (4 < length p \<and> TrimLeft_zeros (p ! 4) = TrimLeft_zeros idPeminjam)"
    and "4 < length a" and "TrimLeft_zeros (a ! 4) = TrimLeft_zeros idPeminjam"
    and "kb_getPengembalian env = Inr respPengembalian"
    and "copyTemplate (kb_render env) = Inr docID" and "batchUpdate (kb_render env) = None"
  shows "map_of (documentFields (kembaliAsync env idPeminjam kondisiAlat keterangan localPath))
           ''<<TGLPS>>'' = Some (a ! 1) \<and>
         map_of (documentFields (kembaliAsync env idPeminjam kondisiAlat keterangan localPath))
           ''<<STS>>'' = Some (cellAt a 5) \<and>
         map_of (documentFields (kembaliAsync env idPeminjam kondisiAlat keterangan localPath))
           ''<<YNG>>'' = Some (a ! 3)"
proof -
  let ?loan = "loanForm r kondisiAlat keterangan"
  let ?joined = "setApproval a ?loan"
  have j: "joinApproval (pre @ a # post) idPeminjam ?loan = ?joined"
    using assms(7,8,9) by (intro joinApproval_first) (auto simp: sameID_def)
  have jr: "joinRead env idPeminjam ?loan = ([], ?joined)"
    using assms(5,6) j by (simp add: joinRead_def)
  have k: "kembaliAsync env idPeminjam kondisiAlat keterangan localPath =
      kembaliStore env ?joined idPeminjam kondisiAlat keterangan localPath"
    using assms(1,2,3,4) jr by (simp add: kembaliAsync_def Let_def)
  obtain form' n where d: "documentFields (kembaliStore env ?joined idPeminjam kondisiAlat keterangan localPath) =
       replacementsPengembalian (kb_clock env) form' n"
    and s: "ApprovalDate form' = ApprovalDate ?joined" "ApprovalStatus form' = ApprovalStatus ?joined"
      "ApproverName form' = ApproverName ?joined"
    using documentFields_kembaliStore[OF assms(10,11,12)] by blast
  have v: "ApprovalDate ?joined = a ! 1" "ApprovalStatus ?joined = cellAt a 5"
    "ApproverName ?joined = a ! 3"
    using assms(8) by (simp_all add: setApproval_def loanForm_def zeroForm_def cellAt_def)
  show ?thesis
    unfolding k d by (simp add: replacementsPengembalian_def s v)
qed

theorem return_joins_first_approval_witness:
  "lookupLoan (rowsOf \<lparr>Values = Some loanRows\<rparr>) ''7'' = Some (loanRows ! 1) \<and>
   TrimLeft_zeros (approvalRows ! 0 ! 4) = TrimLeft_zeros ''7'' \<and>
   map_of (documentFields (kembaliAsync kembaliEnv ''7'' ''Baik'' [] [])) ''<<TGLPS>>'' =
     Some ''2025-01-11'' \<and>
   map_of (documentFields (kembaliAsync kembaliEnv ''7'' ''Baik'' [] [])) ''<<STS>>'' =
     Some ''Rejected'' \<and>
   map_of (documentFields (kembaliAsync kembaliEnv ''7'' ''Baik'' [] [])) ''<<YNG>>'' =
     Some ''Pak Andi'' \<and>
   map_of (documentFields (kembaliAsync kembaliEnvShort ''7'' ''Baik'' [] [])) ''<<TGLPS>>'' =
     Some ''2025-01-11'' \<and>
   map_of (documentFields (kembaliAsync kembaliEnvShort ''7'' ''Baik'' [] [])) ''<<STS>>'' =
     Some [] \<and>
   map_of (documentFields (kembaliAsync kembaliEnvShort ''7'' ''Baik'' [] [])) ''<<YNG>>'' =
     Some ''Pak Andi''"
proof -
  let ?short = "[''0001'', ''2025-01-11'', ''Budi'', ''Pak Andi'', ''0007'']"
  have h1: "kb_services kembaliEnv = None"
    and h2: "kb_get kembaliEnv = Inr \<lparr>Values = Some loanRows\<rparr>"
    and h5: "kb_getApproval kembaliEnv = Inr (Some \<lparr>Values = Some approvalRows\<rparr>)"
    and h10: "kb_getPengembalian kembaliEnv = Inr (Some \<lparr>Values = Some [[''Ani'']]\<rparr>)"
    and h11: "copyTemplate (kb_render kembaliEnv) = Inr ''doc1''"
    and h12: "batchUpdate (kb_render kembaliEnv) = None"
    by (simp_all add: kembaliEnv_def renderOk_def)
  have s1: "kb_services kembaliEnvShort = None"
    and s2: "kb_get kembaliEnvShort = Inr \<lparr>Values = Some loanRows\<rparr>"
    and s5: "kb_getApproval kembaliEnvShort = Inr (Some \<lparr>Values = Some [?short]\<rparr>)"
    and s10: "kb_getPengembalian kembaliEnvShort = Inr (Some \<lparr>Values = Some [[''Ani'']]\<rparr>)"
    and s11: "copyTemplate (kb_render kembaliEnvShort) = Inr ''doc1''"
    and s12: "batchUpdate (kb_render kembaliEnvShort) = None"
    by (simp_all add: kembaliEnvShort_def kembaliEnv_def renderOk_def)
  have h3: "lookupLoan (rowsOf \<lparr>Values = Some loanRows\<rparr>) ''7'' = Some (loanRows ! 1)"
    by (simp add: rowsOf_def loanRows_def sameID_def TrimLeft_zeros_def)
  have h4: "10 \<le> length (loanRows ! 1)"
    by (simp add: loanRows_def)
  have h6: "Values \<lparr>Values = Some approvalRows\<rparr> =
      Some ([] @ (approvalRows ! 0) # [approvalRows ! 1])"
    by (simp add: approvalRows_def)
  have s6: "Values \<lparr>Values = Some [?short]\<rparr> = Some ([] @ ?short # [])"
    by simp
  have h7: "\<forall>p \<in> set []. \<not> (4 < length p \<and> TrimLeft_zeros (p ! 4) = TrimLeft_zeros ''7'')"
    by simp
  have h8: "4 < length (approvalRows ! 0)" and s8: "4 < length ?short"
    by (simp_all add: approvalRows_def)
  have h9: "TrimLeft_zeros (approvalRows ! 0 ! 4) = TrimLeft_zeros ''7''"
    and s9: "TrimLeft_zeros (?short ! 4) = TrimLeft_zeros ''7''"
    by (simp_all add: approvalRows_def TrimLeft_zeros_def)
  have v: "approvalRows ! 0 ! 1 = ''2025-01-11''" "cellAt (approvalRows ! 0) 5 = ''Rejected''"
    "approvalRows ! 0 ! 3 = ''Pak Andi''"
    by (simp_all add: approvalRows_def cellAt_def)
  have w: "?short ! 1 = ''2025-01-11''" "cellAt ?short 5 = []" "?short ! 3 = ''Pak Andi''"
    by (simp_all add: cellAt_def)
  note t1 = return_joins_first_approval[OF h1 h2 h3 h4 h5 h6 h7 h8 h9 h10 h11 h12,
      of "''Baik''" "[]" "[]", unfolded v]
  note t2 = return_joins_first_approval[OF s1 s2 h3 h4 s5 s6 h7 s8 s9 s10 s11 s12,
      of "''Baik''" "[]" "[]", unfolded w]
  show ?thesis
    using h3 h9 t1 t2 by (intro conjI) blast+
qed

section \<open>Allocating the next ordinal\<close>

lemma nextRowPinjam_dataRows: "nextRowPinjam resp = int (dataRows resp) + 1"
  by (simp add: nextRowPinjam_def dataRows_def rowsOf_def split: option.split)

lemma rowNumApproval_dataRows: "rowNumApproval resp = int (dataRows resp) + 6"
  by (simp add: rowNumApproval_def dataRows_def rowsOf_def split: option.split)

lemma nextRowPengembalian_dataRows: "nextRowPengembalian resp = int (dataRows resp) + 1"
  by (simp add: nextRowPengembalian_def dataRows_def rowsOf_def split: option.split)

lemma isSheetsUpdate_simps:
  "isSheetsUpdate (SheetsUpdate a vs)" "\<not> isSheetsUpdate (Reply n b)"
  "\<not> isSheetsUpdate (LogLine t)" "\<not> isSheetsUpdate Panic" "\<not> isSheetsUpdate (SaveLocal p)"
  "\<not> isSheetsUpdate (RemoveLocal p)" "\<not> isSheetsUpdate (DriveUpload p)"
  "\<not> isSheetsUpdate (DriveCopy t n')" "\<not> isSheetsUpdate (DocsReplaceAll d reps)"
  "\<not> isSheetsUpdate (DocsFinish d imgs)" "\<not> isSheetsUpdate (WaPost no m)"
  by (simp_all add: isSheetsUpdate_def)

lemma filter_render_ok:
  assumes "copyTemplate re = Inr docID" and "batchUpdate re = None" and "finish re = FinishOk pdfID"
  shows "filter isSheetsUpdate (fst (render re t title reps imgs k)) = []"
  by (simp add: render_ok[OF assms] isSheetsUpdate_simps)

lemma pinjamStore_ok:
  assumes "pj_get env = Inr resp"
    and "copyTemplate (pj_render env) = Inr docID" and "batchUpdate (pj_render env) = None"
    and "finish (pj_render env) = FinishOk pdfID" and "pj_update env = None"
  shows "(\<exists>vs. filter isSheetsUpdate (pinjamStore env form) =
            [SheetsUpdate (''Form Peminjam'', 0, nextRowPinjam resp + 4)
               (Sprintf_04d (nextRowPinjam resp) # vs)]) \<and>
         documentFields (pinjamStore env form) =
           replacementsSurat (pj_clock env) form (nextRowPinjam resp)"
  using assms(1,5)
  by (simp add: pinjamStore_def Let_def generateSurat_def render_ok[OF assms(2,3,4)]
      isSheetsUpdate_simps documentFields_silent_tail
      offLedger_filter[OF offLedger_pinjamNotify]
      offLedger_fields[OF offLedger_pinjamNotify])

lemma pinjamAsync_ok:
  assumes "pj_services env = None"
  shows "\<exists>ups form. plain ups \<and> pinjamAsync env form0 lp sd = ups @ pinjamStore env form"
proof -
  let ?u = "if lp \<noteq> []
            then (case pj_upload env of
                    Inr url \<Rightarrow> ([DriveUpload lp, RemoveLocal lp], form0\<lparr>FotoPath := url\<rparr>)
                  | Inl e \<Rightarrow>
                      ([LogLine ''Gagal upload foto pengembalian ke Drive:'', RemoveLocal lp], form0))
            else ([], form0)"
  have "plain (fst ?u)"
    by (simp add: plain_simps split: sum.split)
  moreover have "pinjamAsync env form0 lp sd =
      fst ?u @ pinjamStore env ((snd ?u)\<lparr>NoWA := pinjamNoWA env (snd ?u) sd\<rparr>)"
    using assms by (simp add: pinjamAsync_def Let_def)
  ultimately show ?thesis by blast
qed

lemma handlePinjam_ok:
  assumes "pj_services env = None" and "pj_get env = Inr resp"
    and "copyTemplate (pj_render env) = Inr docID" and "batchUpdate (pj_render env) = None"
    and "finish (pj_render env) = FinishOk pdfID" and "pj_update env = None"
  shows "(\<exists>vs. filter isSheetsUpdate (handlePinjam env r) =
            [SheetsUpdate (''Form Peminjam'', 0, int (dataRows resp) + 1 + 4)
               (Sprintf_04d (int (dataRows resp) + 1) # vs)]) \<and>
         map_of (documentFields (handlePinjam env r)) ''<<NMR>>'' =
           Some (Sprintf_04d (int (dataRows resp) + 1))"
proof -
  define pre where "pre =
     fst (stage r (pj_save env)) @ [Reply 200 ''Data berhasil diterima dan sedang diproses''] @
     fst (prefetch env) @
     (if snd (prefetch env) = None
      then [LogLine ''Tidak dapat mengambil data sheet, melanjutkan tanpa update nama'']
      else [])"
  have pre: "plain pre"
    by (simp add: pre_def plain_simps plain_stage plain_prefetch)
  obtain ups form where u: "plain ups"
    and h: "handlePinjam env r = pre @ ups @ pinjamStore env form"
    using pinjamAsync_ok[OF assms(1)]
    by (fastforce simp: handlePinjam_def Let_def pre_def)
  have off: "offLedger (pre @ ups)"
    using pre u by (simp add: offLedger_append plain_offLedger)
  have f: "filter isSheetsUpdate (handlePinjam env r) = filter isSheetsUpdate (pinjamStore env form)"
    using offLedger_filter[OF off] by (simp add: h)
  have d: "documentFields (handlePinjam env r) = documentFields (pinjamStore env form)"
    using offLedger_fields[OF off] by (simp add: h documentFields_append[symmetric])
       (simp add: documentFields_append)
  show ?thesis
    unfolding f d using pinjamStore_ok[OF assms(2-6), of form]
    by (simp add: nextRowPinjam_dataRows replacementsSurat_def)
qed

lemma approval_ok:
  assumes "idPinjam \<noteq> []" "approver \<noteq> []" "statusPersetujuan \<noteq> []"
    and "ar_services env = None" "ar_get env = Inr (Some loans)" "Values loans = Some rows"
    and "copyTemplate (ar_render env) = Inr docID" "batchUpdate (ar_render env) = None"
    and "finish (ar_render env) = FinishOk pdfID"
    and "ar_getApproval env = Inr resp" "ar_update env = None"
  shows "\<exists>vs. filter isSheetsUpdate (handleApprovalRequestNew env idPinjam approver statusPersetujuan) =
            [SheetsUpdate (''Approval Peminjaman'', 0, int (dataRows resp) + 1 + 5)
               (Sprintf_04d (int (dataRows resp) + 1) # vs)]"
proof -
  have "handleApprovalRequestNew env idPinjam approver statusPersetujuan =
      approvalProcess env rows idPinjam approver statusPersetujuan"
    using assms(1-6) by (simp add: handleApprovalRequestNew_def)
  moreover have "\<exists>vs. filter isSheetsUpdate (approvalProcess env rows idPinjam approver statusPersetujuan) =
      [SheetsUpdate (''Approval Peminjaman'', 0, int (dataRows resp) + 1 + 5)
         (Sprintf_04d (int (dataRows resp) + 1) # vs)]"
    using assms(10,11)
    by (simp add: approvalProcess_def Let_def generateSuratApproval_def
        render_ok[OF assms(7,8,9)] isSheetsUpdate_simps rowNumApproval_dataRows
        offLedger_filter[OF offLedger_approvalNotify] add.commute)
  ultimately show ?thesis
    by (simp only:)
qed

lemma kembaliStore_ok:
  assumes "kb_getPengembalian env = Inr resp"
    and "copyTemplate (kb_render env) = Inr docID" and "batchUpdate (kb_render env) = None"
    and "finish (kb_render env) = FinishOk pdfID" and "kb_update env = None"
  shows "(\<exists>vs. filter isSheetsUpdate (kembaliStore env form i k ket lp) =
            [SheetsUpdate (''Form Pengembalian'', 0, nextRowPengembalian resp + 4) vs]) \<and>
         (\<not> snd (Atoi i) \<longrightarrow>
            map_of (documentFields (kembaliStore env form i k ket lp)) ''<<NMR>>'' =
              Some (Sprintf_04d (nextRowPengembalian resp)))"
  using assms(1,5)
  by (cases "Atoi i")
     (auto simp: kembaliStore_def Let_def generateSuratPengembalian_def
        render_ok[OF assms(2,3,4)] isSheetsUpdate_simps documentFields_silent_tail
        documentFields_append documentFields_Nil replacementsPengembalian_def
        offLedger_filter[OF offLedger_kembaliNotify]
        offLedger_fields[OF offLedger_kembaliNotify]
        split: sum.split)

lemma handlePengembalian_ok:
  assumes "Method q = ''POST''" and "kb_services env = None" and "kb_get env = Inr loans"
    and "lookupLoan (rowsOf loans) (FormValue q ''idPeminjam'') = Some lr" and "10 \<le> length lr"
    and "kb_getPengembalian env = Inr resp"
    and "copyTemplate (kb_render env) = Inr docID" and "batchUpdate (kb_render env) = None"
    and "finish (kb_render env) = FinishOk pdfID" and "kb_update env = None"
  shows "(\<exists>vs. filter isSheetsUpdate (handlePengembalian env q) =
            [SheetsUpdate (''Form Pengembalian'', 0, int (dataRows resp) + 1 + 4) vs]) \<and>
         (\<not> snd (Atoi (FormValue q ''idPeminjam'')) \<longrightarrow>
            map_of (documentFields (handlePengembalian env q)) ''<<NMR>>'' =
              Some (Sprintf_04d (int (dataRows resp) + 1)))"
proof -
  let ?i = "FormValue q ''idPeminjam''"
  let ?k = "FormValue q ''kondisiAlat''"
  let ?ket = "FormValue q ''keteranganPengembalian''"
  let ?j = "joinRead env ?i (loanForm lr ?k ?ket)"
  define pre where "pre =
     fst (stage q (kb_save env)) @
     [Reply 200 ''Data pengembalian berhasil diterima dan sedang diproses''] @ fst ?j"
  have pre: "offLedger pre"
    by (rule plain_offLedger) (simp add: pre_def plain_simps plain_stage plain_joinRead)
  have h: "handlePengembalian env q =
      pre @ kembaliStore env (snd ?j) ?i ?k ?ket (snd (stage q (kb_save env)))"
    using assms(1-5) by (simp add: handlePengembalian_def kembaliAsync_def Let_def pre_def)
  have f: "filter isSheetsUpdate (handlePengembalian env q) =
      filter isSheetsUpdate (kembaliStore env (snd ?j) ?i ?k ?ket (snd (stage q (kb_save env))))"
    using offLedger_filter[OF pre] by (simp add: h)
  have d: "documentFields (handlePengembalian env q) =
      documentFields (kembaliStore env (snd ?j) ?i ?k ?ket (snd (stage q (kb_save env))))"
    using offLedger_fields[OF pre] by (simp add: h documentFields_append)
  show ?thesis
    unfolding f d
    using kembaliStore_ok[OF assms(6-10), of "snd ?j" ?i ?k ?ket "snd (stage q (kb_save env))"]
    by (simp add: nextRowPengembalian_dataRows)
qed

text \<open>
  C2. In each of the three regions (loan intake, approval, return) the next ordinal is 1
  when the read of the extent has no rows (a \<open>nil\<close> response, \<open>nil\<close> values or an empty
  slice), and \<open>N + 1\<close> when it has \<open>N\<close> rows; in the approval region the ordinal is
  \<open>rowNum - 5\<close> (line 936). The pipelines allocate it from that read: when a pipeline
  reaches its write, the one row it writes is at the ordinal plus the header offset (4 rows
  in the loan and return regions, 5 in the approval region); the loan and approval records
  carry the ordinal, in four digits, as their identifier; the loan document is numbered
  with it, and so is the return document when the loan identifier is not a number.
\<close>

theorem next_ordinal_is_count_plus_one:
  "nextRowPinjam (Some vr) = int (length (rowsOf vr)) + 1 \<and>
   nextRowPinjam None = 1 \<and>
   rowNumApproval (Some vr) - 5 = int (length (rowsOf vr)) + 1 \<and>
   rowNumApproval None - 5 = 1 \<and>
   nextRowPengembalian (Some vr) = int (length (rowsOf vr)) + 1 \<and>
   nextRowPengembalian None = 1 \<and>
   (pj_services penv = None \<and> pj_get penv = Inr resp \<and>
    copyTemplate (pj_render penv) = Inr docID \<and> batchUpdate (pj_render penv) = None \<and>
    finish (pj_render penv) = FinishOk pdfID \<and> pj_update penv = None \<longrightarrow>
      (\<exists>vs. filter isSheetsUpdate (handlePinjam penv r) =
         [SheetsUpdate (''Form Peminjam'', 0, int (dataRows resp) + 1 + 4)
            (Sprintf_04d (int (dataRows resp) + 1) # vs)]) \<and>
      map_of (documentFields (handlePinjam penv r)) ''<<NMR>>'' =
        Some (Sprintf_04d (int (dataRows resp) + 1))) \<and>
   (idPinjam \<noteq> [] \<and> approver \<noteq> [] \<and> statusPersetujuan \<noteq> [] \<and> ar_services aenv = None \<and>
    ar_get aenv = Inr (Some loans) \<and> Values loans = Some rows \<and>
    copyTemplate (ar_render aenv) = Inr docID \<and> batchUpdate (ar_render aenv) = None \<and>
    finish (ar_render aenv) = FinishOk pdfID \<and> ar_getApproval aenv = Inr resp \<and>
    ar_update aenv = None \<longrightarrow>
      (\<exists>vs. filter isSheetsUpdate
               (handleApprovalRequestNew aenv idPinjam approver statusPersetujuan) =
         [SheetsUpdate (''Approval Peminjaman'', 0, int (dataRows resp) + 1 + 5)
            (Sprintf_04d (int (dataRows resp) + 1) # vs)])) \<and>
   (Method q = ''POST'' \<and> kb_services kenv = None \<and> kb_get kenv = Inr loanRange \<and>
    lookupLoan (rowsOf loanRange) (FormValue q ''idPeminjam'') = Some lr \<and> 10 \<le> length lr \<and>
    kb_getPengembalian kenv = Inr resp \<and>
    copyTemplate (kb_render kenv) = Inr docID \<and> batchUpdate (kb_render kenv) = None \<and>
    finish (kb_render kenv) = FinishOk pdfID \<and> kb_update kenv = None \<longrightarrow>
      (\<exists>vs. filter isSheetsUpdate (handlePengembalian kenv q) =
         [SheetsUpdate (''Form Pengembalian'', 0, int (dataRows resp) + 1 + 4) vs]) \<and>
      (\<not> snd (Atoi (FormValue q ''idPeminjam'')) \<longrightarrow>
         map_of (documentFields (handlePengembalian kenv q)) ''<<NMR>>'' =
           Some (Sprintf_04d (int (dataRows resp) + 1))))"
proof (intro conjI)
  show "pj_services penv = None \<and> pj_get penv = Inr resp \<and>
    copyTemplate (pj_render penv) = Inr docID \<and> batchUpdate (pj_render penv) = None \<and>
    finish (pj_render penv) = FinishOk pdfID \<and> pj_update penv = None \<longrightarrow>
      (\<exists>vs. filter isSheetsUpdate (handlePinjam penv r) =
         [SheetsUpdate (''Form Peminjam'', 0, int (dataRows resp) + 1 + 4)
            (Sprintf_04d (int (dataRows resp) + 1) # vs)]) \<and>
      map_of (documentFields (handlePinjam penv r)) ''<<NMR>>'' =
        Some (Sprintf_04d (int (dataRows resp) + 1))"
    using handlePinjam_ok[of penv resp docID pdfID r] by blast
  show "idPinjam \<noteq> [] \<and> approver \<noteq> [] \<and> statusPersetujuan \<noteq> [] \<and> ar_services aenv = None \<and>
    ar_get aenv = Inr (Some loans) \<and> Values loans = Some rows \<and>
    copyTemplate (ar_render aenv) = Inr docID \<and> batchUpdate (ar_render aenv) = None \<and>
    finish (ar_render aenv) = FinishOk pdfID \<and> ar_getApproval aenv = Inr resp \<and>
    ar_update aenv = None \<longrightarrow>
      (\<exists>vs. filter isSheetsUpdate
               (handleApprovalRequestNew aenv idPinjam approver statusPersetujuan) =
         [SheetsUpdate (''Approval Peminjaman'', 0, int (dataRows resp) + 1 + 5)
            (Sprintf_04d (int (dataRows resp) + 1) # vs)])"
    using approval_ok[of idPinjam approver statusPersetujuan aenv loans rows docID pdfID resp]
    by blast
  show "Method q = ''POST'' \<and> kb_services kenv = None \<and> kb_get kenv = Inr loanRange \<and>
    lookupLoan (rowsOf loanRange) (FormValue q ''idPeminjam'') = Some lr \<and> 10 \<le> length lr \<and>
    kb_getPengembalian kenv = Inr resp \<and>
    copyTemplate (kb_render kenv) = Inr docID \<and> batchUpdate (kb_render kenv) = None \<and>
    finish (kb_render kenv) = FinishOk pdfID \<and> kb_update kenv = None \<longrightarrow>
      (\<exists>vs. filter isSheetsUpdate (handlePengembalian kenv q) =
         [SheetsUpdate (''Form Pengembalian'', 0, int (dataRows resp) + 1 + 4) vs]) \<and>
      (\<not> snd (Atoi (FormValue q ''idPeminjam'')) \<longrightarrow>
         map_of (documentFields (handlePengembalian kenv q)) ''<<NMR>>'' =
           Some (Sprintf_04d (int (dataRows resp) + 1)))"
    using handlePengembalian_ok[of q kenv loanRange lr resp docID pdfID] by blast
qed (simp_all add: nextRowPinjam_def rowNumApproval_def nextRowPengembalian_def rowsOf_def
      split: option.split)


theorem next_ordinal_is_count_plus_one_witness:
  "(\<exists>vs. filter isSheetsUpdate (handlePinjam pinjamEnv pinjamRequest) =
      [SheetsUpdate (''Form Peminjam'', 0, 7) (''0003'' # vs)]) \<and>
   map_of (documentFields (handlePinjam pinjamEnv pinjamRequest)) ''<<NMR>>'' = Some ''0003'' \<and>
   (\<exists>vs. filter isSheetsUpdate (handlePinjam (pinjamEnv\<lparr>pj_get := Inr None\<rparr>) pinjamRequest) =
      [SheetsUpdate (''Form Peminjam'', 0, 5) (''0001'' # vs)]) \<and>
   (\<exists>vs. filter isSheetsUpdate (handleApprovalRequestNew approvalEnv ''7'' ''Pak Andi'' ''Approved'') =
      [SheetsUpdate (''Approval Peminjaman'', 0, 8) (''0003'' # vs)]) \<and>
   (\<exists>vs. filter isSheetsUpdate (handlePengembalian kembaliEnv (kembaliRequest ''7'')) =
      [SheetsUpdate (''Form Pengembalian'', 0, 6) vs]) \<and>
   \<not> snd (Atoi ''A7'') \<and>
   map_of (documentFields (handlePengembalian kembaliEnvAlpha (kembaliRequest ''A7''))) ''<<NMR>>'' =
     Some ''0002''"
proof -
  let ?two = "Some \<lparr>Values = Some [[''2025-01-09''], [''2025-01-10'']]\<rparr>"
  let ?p0 = "pinjamEnv\<lparr>pj_get := Inr None\<rparr>"
  let ?loans = "\<lparr>Values = Some loanRows\<rparr>"
  let ?alpha = "\<lparr>Values = Some loanRowsAlpha\<rparr>"
  let ?one = "Some \<lparr>Values = Some [[''Ani'']]\<rparr>"
  have n: "int (dataRows ?two) + 1 + 4 = 7" "int (dataRows ?two) + 1 = 3"
    "int (dataRows None) + 1 + 4 = 5" "int (dataRows None) + 1 = 1"
    "int (dataRows (Some \<lparr>Values = Some approvalRows\<rparr>)) + 1 + 5 = 8"
    "int (dataRows (Some \<lparr>Values = Some approvalRows\<rparr>)) + 1 = 3"
    "int (dataRows ?one) + 1 + 4 = 6" "int (dataRows ?one) + 1 = 2"
    by (simp_all add: dataRows_def rowsOf_def approvalRows_def)
  have s: "Sprintf_04d 3 = ''0003''" "Sprintf_04d 1 = ''0001''" "Sprintf_04d 2 = ''0002''"
    by code_simp+
  have p1: "pj_services pinjamEnv = None \<and> pj_get pinjamEnv = Inr ?two \<and>
      copyTemplate (pj_render pinjamEnv) = Inr ''doc1'' \<and> batchUpdate (pj_render pinjamEnv) = None \<and>
      finish (pj_render pinjamEnv) = FinishOk ''pdf1'' \<and> pj_update pinjamEnv = None"
    by (simp add: pinjamEnv_def renderOk_def)
  have p0: "pj_services ?p0 = None \<and> pj_get ?p0 = Inr None \<and>
      copyTemplate (pj_render ?p0) = Inr ''doc1'' \<and> batchUpdate (pj_render ?p0) = None \<and>
      finish (pj_render ?p0) = FinishOk ''pdf1'' \<and> pj_update ?p0 = None"
    by (simp add: pinjamEnv_def renderOk_def)
  have a: "''7'' \<noteq> [] \<and> ''Pak Andi'' \<noteq> [] \<and> ''Approved'' \<noteq> [] \<and> ar_services approvalEnv = None \<and>
      ar_get approvalEnv = Inr (Some ?loans) \<and> Values ?loans = Some loanRows \<and>
      copyTemplate (ar_render approvalEnv) = Inr ''doc1'' \<and>
      batchUpdate (ar_render approvalEnv) = None \<and>
      finish (ar_render approvalEnv) = FinishOk ''pdf1'' \<and>
      ar_getApproval approvalEnv = Inr (Some \<lparr>Values = Some approvalRows\<rparr>) \<and>
      ar_update approvalEnv = None"
    by (simp add: approvalEnv_def renderOk_def)
  have k: "Method (kembaliRequest ''7'') = ''POST'' \<and> kb_services kembaliEnv = None \<and>
      kb_get kembaliEnv = Inr ?loans \<and>
      lookupLoan (rowsOf ?loans) (FormValue (kembaliRequest ''7'') ''idPeminjam'') =
        Some (loanRows ! 1) \<and>
      10 \<le> length (loanRows ! 1) \<and> kb_getPengembalian kembaliEnv = Inr ?one \<and>
      copyTemplate (kb_render kembaliEnv) = Inr ''doc1'' \<and>
      batchUpdate (kb_render kembaliEnv) = None \<and>
      finish (kb_render kembaliEnv) = FinishOk ''pdf1'' \<and> kb_update kembaliEnv = None"
    by (simp add: kembaliEnv_def kembaliRequest_def renderOk_def rowsOf_def loanRows_def
        sameID_def TrimLeft_zeros_def)
  have ka: "Method (kembaliRequest ''A7'') = ''POST'' \<and> kb_services kembaliEnvAlpha = None \<and>
      kb_get kembaliEnvAlpha = Inr ?alpha \<and>
      lookupLoan (rowsOf ?alpha) (FormValue (kembaliRequest ''A7'') ''idPeminjam'') =
        Some (loanRowsAlpha ! 0) \<and>
      10 \<le> length (loanRowsAlpha ! 0) \<and> kb_getPengembalian kembaliEnvAlpha = Inr ?one \<and>
      copyTemplate (kb_render kembaliEnvAlpha) = Inr ''doc1'' \<and>
      batchUpdate (kb_render kembaliEnvAlpha) = None \<and>
      finish (kb_render kembaliEnvAlpha) = FinishOk ''pdf1'' \<and> kb_update kembaliEnvAlpha = None"
    by (simp add: kembaliEnvAlpha_def kembaliEnv_def kembaliRequest_def renderOk_def rowsOf_def
        loanRowsAlpha_def sameID_def TrimLeft_zeros_def)
  have na: "\<not> snd (Atoi ''A7'')" "FormValue (kembaliRequest ''A7'') ''idPeminjam'' = ''A7''"
    by (simp_all add: Atoi_def HasPrefix_def isDigit_def kembaliRequest_def)
  note pinjam = next_ordinal_is_count_plus_one[THEN conjunct2, THEN conjunct2, THEN conjunct2,
      THEN conjunct2, THEN conjunct2, THEN conjunct2, THEN conjunct1, rule_format]
  note approval = next_ordinal_is_count_plus_one[THEN conjunct2, THEN conjunct2, THEN conjunct2,
      THEN conjunct2, THEN conjunct2, THEN conjunct2, THEN conjunct2, THEN conjunct1, rule_format]
  note kembali = next_ordinal_is_count_plus_one[THEN conjunct2, THEN conjunct2, THEN conjunct2,
      THEN conjunct2, THEN conjunct2, THEN conjunct2, THEN conjunct2, THEN conjunct2, rule_format]
  note c1 = pinjam[OF p1, of pinjamRequest, unfolded n s]
  note c0 = pinjam[OF p0, of pinjamRequest, unfolded n s]
  note c2 = approval[OF a, unfolded n s]
  note c3 = kembali[OF k, unfolded n s]
  note c4 = kembali[OF ka, unfolded n s na]
  show ?thesis
    using c1 c0 c2 c3 c4 na(1) by simp
qed

end
